theory Spec2Isabelle
  imports Main
begin

section \<open>Common enumerations (include/Common.h)\<close>

text \<open>\<open>DataType::INT\<close> is written \<open>INT'\<close>: the name without the prime is reserved by the syntax of
  indexed intersections.\<close>

datatype DataType = VOID | INT' | FLOAT | BOOL | STRING | ARRAY | FUNCTION | UNKNOWN

datatype OperatorType =
    ADD | SUBTRACT | MULTIPLY | DIVIDE | MODULO | ASSIGN
  | EQUAL | NOT_EQUAL | LESS | LESS_EQUAL | GREATER | GREATER_EQUAL
  | AND | OR | NOT

section \<open>String helpers (src/Utils.cpp)\<close>

text \<open>The five characters that \<open>escapeString\<close> treats specially, and the letters of
  their escape sequences.\<close>

abbreviation backslash :: char where "backslash \<equiv> CHR 0x5C"
abbreviation dquote :: char where "dquote \<equiv> CHR 0x22"
abbreviation newline :: char where "newline \<equiv> CHR 0x0A"
abbreviation tab :: char where "tab \<equiv> CHR 0x09"
abbreviation cr :: char where "cr \<equiv> CHR 0x0D"

text \<open>One iteration of the range-for loop of \<open>escapeString\<close>: the text appended to
  \<open>result\<close> for the character \<open>c\<close> (the \<open>switch\<close>).\<close>

definition escapeChar :: "char \<Rightarrow> string" where
  "escapeChar c =
     (if c = backslash then [backslash, backslash]
      else if c = dquote then [backslash, dquote]
      else if c = newline then [backslash, CHR ''n'']
      else if c = tab then [backslash, CHR ''t'']
      else if c = cr then [backslash, CHR ''r'']
      else [c])"

fun escapeString :: "string \<Rightarrow> string" where
  "escapeString [] = []"
| "escapeString (c # cs) = escapeChar c @ escapeString cs"

text \<open>The inner \<open>switch\<close> of \<open>unescapeString\<close> on the character after a backslash.\<close>

definition unescapeChar :: "char \<Rightarrow> char" where
  "unescapeChar d =
     (if d = backslash then backslash
      else if d = dquote then dquote
      else if d = CHR ''n'' then newline
      else if d = CHR ''t'' then tab
      else if d = CHR ''r'' then cr
      else d)"

text \<open>The index loop of \<open>unescapeString\<close>, as a recursion on the part of \<open>str\<close> from
  index \<open>i\<close> on. The test \<open>i + 1 < str.length()\<close> is the second equation: a backslash
  that is the last character is copied.\<close>

fun unescapeString :: "string \<Rightarrow> string" where
  "unescapeString [] = []"
| "unescapeString [c] = [c]"
| "unescapeString (c # d # rest) =
     (if c = backslash then unescapeChar d # unescapeString rest
      else c # unescapeString (d # rest))"

section \<open>Symbols and the symbol table (include/Semantic.h, src/Semantic.cpp)\<close>

text \<open>The \<open>Symbol\<close> struct without its source location. The constructor leaves
  \<open>returnType\<close> uninitialised; \<open>None\<close> stands for that.\<close>

record Symbol =
  name :: string
  type :: DataType
  isFunction :: bool
  isConstant :: bool
  parameterTypes :: "DataType list"
  returnType :: "DataType option"

definition mkSymbol :: "string \<Rightarrow> DataType \<Rightarrow> bool \<Rightarrow> Symbol" where
  "mkSymbol n t f =
     \<lparr>name = n, type = t, isFunction = f, isConstant = False,
      parameterTypes = [], returnType = None\<rparr>"

text \<open>\<open>scopes_\<close> is a vector of hash maps; the list is in vector order, so the
  innermost scope (\<open>back()\<close>) is the last element.\<close>

type_synonym Scope = "string \<rightharpoonup> Symbol"
type_synonym SymbolTable = "Scope list"

definition enterScope :: "SymbolTable \<Rightarrow> SymbolTable" where
  "enterScope scopes = scopes @ [Map.empty]"

definition exitScope :: "SymbolTable \<Rightarrow> SymbolTable" where
  "exitScope scopes = (if length scopes > 1 then butlast scopes else scopes)"

text \<open>The constructor of \<open>SymbolTable\<close>: one call of \<open>enterScope\<close> on the empty vector.\<close>

definition newSymbolTable :: SymbolTable where
  "newSymbolTable = enterScope []"

definition lookupCurrentScope :: "SymbolTable \<Rightarrow> string \<Rightarrow> Symbol option" where
  "lookupCurrentScope scopes n = (last scopes) n"

text \<open>\<open>insert\<close> returns the success flag and the updated table.\<close>

definition insert_sym :: "SymbolTable \<Rightarrow> string \<Rightarrow> Symbol \<Rightarrow> bool \<times> SymbolTable" where
  "insert_sym scopes n s =
     (if lookupCurrentScope scopes n \<noteq> None then (False, scopes)
      else (True, butlast scopes @ [(last scopes)(n \<mapsto> s)]))"

text \<open>\<open>lookup\<close> walks the vector from \<open>rbegin\<close> to \<open>rend\<close>: the recursion is on the
  reversed list.\<close>

fun lookupRev :: "Scope list \<Rightarrow> string \<Rightarrow> Symbol option" where
  "lookupRev [] n = None"
| "lookupRev (sc # rest) n = (case sc n of Some s \<Rightarrow> Some s | None \<Rightarrow> lookupRev rest n)"

definition lookup :: "SymbolTable \<Rightarrow> string \<Rightarrow> Symbol option" where
  "lookup scopes n = lookupRev (rev scopes) n"

text \<open>A sequence of scope operations, and the balanced ones: no prefix exits more
  scopes than it entered, and the whole sequence exits as many as it entered.\<close>

datatype ScopeOp = Enter | Exit

fun applyOp :: "ScopeOp \<Rightarrow> SymbolTable \<Rightarrow> SymbolTable" where
  "applyOp Enter t = enterScope t"
| "applyOp Exit t = exitScope t"

fun runOps :: "ScopeOp list \<Rightarrow> SymbolTable \<Rightarrow> SymbolTable" where
  "runOps [] t = t"
| "runOps (x # xs) t = runOps xs (applyOp x t)"

fun balancedFrom :: "nat \<Rightarrow> ScopeOp list \<Rightarrow> bool" where
  "balancedFrom d [] = (d = 0)"
| "balancedFrom d (Enter # xs) = balancedFrom (Suc d) xs"
| "balancedFrom d (Exit # xs) = (d > 0 \<and> balancedFrom (d - 1) xs)"

definition balanced :: "ScopeOp list \<Rightarrow> bool" where
  "balanced xs = balancedFrom 0 xs"

text \<open>The symbols visible through \<open>lookup\<close>.\<close>

definition visible :: "SymbolTable \<Rightarrow> (string \<times> Symbol) set" where
  "visible t = {(n, s). lookup t n = Some s}"

section \<open>Character classes (src/Utils.cpp)\<close>

text \<open>The \<open>cctype\<close> predicates in the "C" locale (the program never sets another
  one), on the byte value of the character.\<close>

definition isWhitespace :: "char \<Rightarrow> bool" where
  "isWhitespace c = (let n = (of_char c :: nat) in n = 32 \<or> (9 \<le> n \<and> n \<le> 13))"

definition isDigit :: "char \<Rightarrow> bool" where
  "isDigit c = (let n = (of_char c :: nat) in 48 \<le> n \<and> n \<le> 57)"

definition isAlpha :: "char \<Rightarrow> bool" where
  "isAlpha c =
     (let n = (of_char c :: nat) in (65 \<le> n \<and> n \<le> 90) \<or> (97 \<le> n \<and> n \<le> 122) \<or> c = CHR ''_'')"

definition isAlphaNumeric :: "char \<Rightarrow> bool" where
  "isAlphaNumeric c = (isAlpha c \<or> isDigit c)"

section \<open>Tokens (include/Common.h, include/Lexer.h)\<close>

text \<open>Modelled from the spec: src/Parser.cpp names \<open>TokenType::SLASH\<close> and
  \<open>TokenType::COLON\<close>, which the enum of include/Common.h does not declare. Section 9
  of the specification describes them as further enumerators, \<open>SLASH\<close> distinct from
  \<open>DIVIDE\<close>; they are the last two constructors below. No line of src/Lexer.cpp
  produces either of them.

  The other constructors are the enumerators of \<open>TokenType\<close> in include/Common.h, in
  their order. All carry the prefix \<open>TK_\<close>, since several of them share their names
  with enumerators of \<open>DataType\<close> and \<open>OperatorType\<close>.\<close>

datatype TokenType =
    TK_INTEGER | TK_FLOAT | TK_STRING | TK_IDENTIFIER
  | TK_IF | TK_ELSE | TK_WHILE | TK_FOR | TK_RETURN | TK_FUNCTION | TK_VAR | TK_LET
  | TK_CONST | TK_TRUE | TK_FALSE | TK_NULL_LITERAL
  | TK_PLUS | TK_MINUS | TK_MULTIPLY | TK_DIVIDE | TK_MODULO | TK_ASSIGN | TK_EQUAL
  | TK_NOT_EQUAL | TK_LESS | TK_LESS_EQUAL | TK_GREATER | TK_GREATER_EQUAL
  | TK_AND | TK_OR | TK_NOT
  | TK_LEFT_PAREN | TK_RIGHT_PAREN | TK_LEFT_BRACE | TK_RIGHT_BRACE
  | TK_LEFT_BRACKET | TK_RIGHT_BRACKET | TK_SEMICOLON | TK_COMMA | TK_DOT
  | TK_END_OF_FILE | TK_ERROR
  | TK_SLASH | TK_COLON

text \<open>A token without its source location. Locations are carried along by every
  stage and read only to format diagnostics; no stage branches on one.\<close>

datatype Token = Token (tokenType: TokenType) (tokenValue: string)

section \<open>The lexer (src/Lexer.cpp)\<close>

text \<open>The lexer reads \<open>source_\<close> only through the two cursors \<open>start_\<close> and
  \<open>current_\<close>. The state keeps the two segments they delimit: \<open>scanned\<close> is
  \<open>source_[start_ .. current_)\<close> and \<open>remaining\<close> is \<open>source_[current_ ..)\<close>.\<close>

record Lexer =
  scanned :: string
  remaining :: string

definition isAtEnd :: "Lexer \<Rightarrow> bool" where
  "isAtEnd L = (remaining L = [])"

definition peek :: "Lexer \<Rightarrow> char" where
  "peek L = (case remaining L of [] \<Rightarrow> CHR 0x00 | c # _ \<Rightarrow> c)"

text \<open>\<open>advance\<close> gives the state after the call; the character it returns is
  \<open>peek\<close> of the state before.\<close>

definition advance :: "Lexer \<Rightarrow> Lexer" where
  "advance L =
     (case remaining L of [] \<Rightarrow> L
      | c # cs \<Rightarrow> L\<lparr>scanned := scanned L @ [c], remaining := cs\<rparr>)"

definition match :: "Lexer \<Rightarrow> char \<Rightarrow> bool \<times> Lexer" where
  "match L expected =
     (case remaining L of [] \<Rightarrow> (False, L)
      | c # cs \<Rightarrow>
          if c \<noteq> expected then (False, L)
          else (True, L\<lparr>scanned := scanned L @ [c], remaining := cs\<rparr>))"

text \<open>\<open>start_ = current_\<close>.\<close>

definition markStart :: "Lexer \<Rightarrow> Lexer" where
  "markStart L = L\<lparr>scanned := []\<rparr>"

definition errorToken :: "string \<Rightarrow> Token" where
  "errorToken message = Token TK_ERROR message"

definition keywordTable :: "string \<rightharpoonup> TokenType" where
  "keywordTable = map_of
     [(''if'', TK_IF), (''else'', TK_ELSE), (''while'', TK_WHILE), (''for'', TK_FOR),
      (''return'', TK_RETURN), (''function'', TK_FUNCTION), (''var'', TK_VAR),
      (''let'', TK_LET), (''const'', TK_CONST), (''true'', TK_TRUE),
      (''false'', TK_FALSE), (''null'', TK_NULL_LITERAL)]"

lemma advance_remaining:
  "\<not> isAtEnd L \<Longrightarrow> length (remaining (advance L)) < length (remaining L)"
  by (cases "remaining L") (simp_all add: isAtEnd_def advance_def)

function skipWhitespace :: "Lexer \<Rightarrow> Lexer" where
  "skipWhitespace L =
     (if \<not> isAtEnd L \<and> isWhitespace (peek L) then skipWhitespace (advance L) else L)"
  by pat_completeness auto
termination
  by (relation "measure (\<lambda>L. length (remaining L))") (simp_all add: advance_remaining)

function skipComment :: "Lexer \<Rightarrow> Lexer" where
  "skipComment L =
     (if \<not> isAtEnd L \<and> peek L \<noteq> newline then skipComment (advance L) else L)"
  by pat_completeness auto
termination
  by (relation "measure (\<lambda>L. length (remaining L))") (simp_all add: advance_remaining)

text \<open>The loop of \<open>readNumber\<close>; the second component is \<open>hasDecimal\<close>.\<close>

function numberLoop :: "Lexer \<Rightarrow> bool \<Rightarrow> Lexer \<times> bool" where
  "numberLoop L hasDecimal =
     (if \<not> isAtEnd L \<and> (isDigit (peek L) \<or> (\<not> hasDecimal \<and> peek L = CHR ''.''))
      then numberLoop (advance L) (if peek L = CHR ''.'' then True else hasDecimal)
      else (L, hasDecimal))"
  by pat_completeness auto
termination
  by (relation "measure (\<lambda>(L, h). length (remaining L))") (simp_all add: advance_remaining)

definition readNumber :: "Lexer \<Rightarrow> Token \<times> Lexer" where
  "readNumber L =
     (case numberLoop L False of
        (L', hasDecimal) \<Rightarrow>
          (Token (if hasDecimal then TK_FLOAT else TK_INTEGER) (scanned L'), L'))"

text \<open>The loop of \<open>readString\<close>; the flag says that the loop left through the
  \<open>return errorToken(...)\<close> on a newline.\<close>

function stringLoop :: "Lexer \<Rightarrow> bool \<times> Lexer" where
  "stringLoop L =
     (if \<not> isAtEnd L \<and> peek L \<noteq> dquote
      then (if peek L = newline then (True, L) else stringLoop (advance L))
      else (False, L))"
  by pat_completeness auto
termination
  by (relation "measure (\<lambda>L. length (remaining L))") (simp_all add: advance_remaining)

text \<open>\<open>source_.substr(start_ + 1, current_ - start_ - 2)\<close>: the scanned text without
  its first character, cut to two characters less than the scanned length.\<close>

definition readString :: "Lexer \<Rightarrow> Token \<times> Lexer" where
  "readString L =
     (case stringLoop L of
        (True, L') \<Rightarrow> (errorToken ''Unterminated string'', L')
      | (False, L') \<Rightarrow>
          if isAtEnd L' then (errorToken ''Unterminated string'', L')
          else (let L'' = advance L' in
                (Token TK_STRING (take (length (scanned L'') - 2) (drop 1 (scanned L''))), L'')))"

function identifierLoop :: "Lexer \<Rightarrow> Lexer" where
  "identifierLoop L =
     (if \<not> isAtEnd L \<and> isAlphaNumeric (peek L) then identifierLoop (advance L) else L)"
  by pat_completeness auto
termination
  by (relation "measure (\<lambda>L. length (remaining L))") (simp_all add: advance_remaining)

definition readIdentifier :: "Lexer \<Rightarrow> Token \<times> Lexer" where
  "readIdentifier L =
     (let L' = identifierLoop L; text = scanned L' in
      case keywordTable text of
        Some k \<Rightarrow> (Token k text, L')
      | None \<Rightarrow> (Token TK_IDENTIFIER text, L'))"

text \<open>The \<open>switch\<close> of \<open>readOperator\<close> on \<open>c\<close>.\<close>

definition singleCharToken :: "char \<Rightarrow> Token" where
  "singleCharToken c =
     (if c = CHR ''('' then Token TK_LEFT_PAREN ''(''
      else if c = CHR '')'' then Token TK_RIGHT_PAREN '')''
      else if c = CHR ''{'' then Token TK_LEFT_BRACE ''{''
      else if c = CHR ''}'' then Token TK_RIGHT_BRACE ''}''
      else if c = CHR ''['' then Token TK_LEFT_BRACKET ''[''
      else if c = CHR '']'' then Token TK_RIGHT_BRACKET '']''
      else if c = CHR '';'' then Token TK_SEMICOLON '';''
      else if c = CHR '','' then Token TK_COMMA '',''
      else if c = CHR ''.'' then Token TK_DOT ''.''
      else if c = CHR ''+'' then Token TK_PLUS ''+''
      else if c = CHR ''-'' then Token TK_MINUS ''-''
      else if c = CHR ''*'' then Token TK_MULTIPLY ''*''
      else if c = CHR ''/'' then Token TK_DIVIDE ''/''
      else if c = CHR ''%'' then Token TK_MODULO ''%''
      else if c = CHR ''='' then Token TK_ASSIGN ''=''
      else if c = CHR ''<'' then Token TK_LESS ''<''
      else if c = CHR ''>'' then Token TK_GREATER ''>''
      else if c = CHR ''!'' then Token TK_NOT ''!''
      else errorToken (''Unexpected character: '' @ [c]))"

text \<open>The chain of comparisons of \<open>twoChar\<close> in \<open>readOperator\<close>.\<close>

definition twoCharOperators :: "string \<rightharpoonup> TokenType" where
  "twoCharOperators = map_of
     [(''=='', TK_EQUAL), (''!='', TK_NOT_EQUAL), (''<='', TK_LESS_EQUAL),
      (''>='', TK_GREATER_EQUAL), (''&&'', TK_AND), (''||'', TK_OR)]"

text \<open>\<open>readOperator\<close> runs right after the \<open>advance\<close> of \<open>nextToken\<close>, so
  \<open>source_[current_ - 1]\<close> is the last scanned character.\<close>

definition readOperator :: "Lexer \<Rightarrow> Token \<times> Lexer" where
  "readOperator L =
     (let c = last (scanned L); twoChar = [c, peek L] in
      case (if isAtEnd L then None else twoCharOperators twoChar) of
        Some k \<Rightarrow> (Token k twoChar, advance L)
      | None \<Rightarrow> (singleCharToken c, L))"

text \<open>The loops consume characters and never give any back; \<open>nextToken\<close> and the
  loop of \<open>tokenize\<close> terminate for that reason.\<close>

declare skipWhitespace.simps [simp del] skipComment.simps [simp del]
  numberLoop.simps [simp del] stringLoop.simps [simp del] identifierLoop.simps [simp del]

lemma advance_remaining_le: "length (remaining (advance L)) \<le> length (remaining L)"
  by (cases "remaining L") (simp_all add: advance_def)

lemma match_remaining_le: "length (remaining (snd (match L c))) \<le> length (remaining L)"
  by (cases "remaining L") (simp_all add: match_def)

lemma skipWhitespace_remaining:
  "length (remaining (skipWhitespace L)) \<le> length (remaining L)"
proof (induction L rule: skipWhitespace.induct)
  case (1 L)
  show ?case
  proof (cases "\<not> isAtEnd L \<and> isWhitespace (peek L)")
    case True
    with 1 have "length (remaining (skipWhitespace (advance L))) \<le> length (remaining (advance L))"
      by simp
    also have "\<dots> \<le> length (remaining L)" by (rule advance_remaining_le)
    finally show ?thesis using True by (subst skipWhitespace.simps) simp
  next
    case False
    then show ?thesis by (subst skipWhitespace.simps) auto
  qed
qed

lemma skipComment_remaining:
  "length (remaining (skipComment L)) \<le> length (remaining L)"
proof (induction L rule: skipComment.induct)
  case (1 L)
  show ?case
  proof (cases "\<not> isAtEnd L \<and> peek L \<noteq> newline")
    case True
    with 1 have "length (remaining (skipComment (advance L))) \<le> length (remaining (advance L))"
      by simp
    also have "\<dots> \<le> length (remaining L)" by (rule advance_remaining_le)
    finally show ?thesis using True by (subst skipComment.simps) simp
  next
    case False
    then show ?thesis by (subst skipComment.simps) auto
  qed
qed

lemma numberLoop_remaining:
  "length (remaining (fst (numberLoop L h))) \<le> length (remaining L)"
proof (induction L h rule: numberLoop.induct)
  case (1 L h)
  show ?case
  proof (cases "\<not> isAtEnd L \<and> (isDigit (peek L) \<or> (\<not> h \<and> peek L = CHR ''.''))")
    case True
    with 1 have "length (remaining (fst (numberLoop (advance L) (if peek L = CHR ''.'' then True else h))))
        \<le> length (remaining (advance L))"
      by simp
    also have "\<dots> \<le> length (remaining L)" by (rule advance_remaining_le)
    finally show ?thesis using True by (subst numberLoop.simps) simp
  next
    case False
    then show ?thesis by (subst numberLoop.simps) auto
  qed
qed

lemma stringLoop_remaining:
  "length (remaining (snd (stringLoop L))) \<le> length (remaining L)"
proof (induction L rule: stringLoop.induct)
  case (1 L)
  show ?case
  proof (cases "\<not> isAtEnd L \<and> peek L \<noteq> dquote \<and> peek L \<noteq> newline")
    case True
    with 1 have "length (remaining (snd (stringLoop (advance L)))) \<le> length (remaining (advance L))"
      by simp
    also have "\<dots> \<le> length (remaining L)" by (rule advance_remaining_le)
    finally show ?thesis using True by (subst stringLoop.simps) simp
  next
    case False
    then show ?thesis by (subst stringLoop.simps) auto
  qed
qed

lemma identifierLoop_remaining:
  "length (remaining (identifierLoop L)) \<le> length (remaining L)"
proof (induction L rule: identifierLoop.induct)
  case (1 L)
  show ?case
  proof (cases "\<not> isAtEnd L \<and> isAlphaNumeric (peek L)")
    case True
    with 1 have "length (remaining (identifierLoop (advance L))) \<le> length (remaining (advance L))"
      by simp
    also have "\<dots> \<le> length (remaining L)" by (rule advance_remaining_le)
    finally show ?thesis using True by (subst identifierLoop.simps) simp
  next
    case False
    then show ?thesis by (subst identifierLoop.simps) auto
  qed
qed

lemma readNumber_remaining: "length (remaining (snd (readNumber L))) \<le> length (remaining L)"
  using numberLoop_remaining [of L False] by (auto simp: readNumber_def split: prod.splits)

lemma readString_remaining: "length (remaining (snd (readString L))) \<le> length (remaining L)"
  using stringLoop_remaining [of L] advance_remaining_le [of "snd (stringLoop L)"]
  by (auto simp: readString_def Let_def split: prod.splits bool.splits)

lemma readIdentifier_remaining:
  "length (remaining (snd (readIdentifier L))) \<le> length (remaining L)"
  using identifierLoop_remaining [of L]
  by (simp add: readIdentifier_def Let_def split: option.splits)

lemma readOperator_remaining:
  "length (remaining (snd (readOperator L))) \<le> length (remaining L)"
  using advance_remaining_le [of L]
  by (simp add: readOperator_def Let_def split: option.splits)

lemma markStart_remaining [simp]: "remaining (markStart L) = remaining L"
  by (simp add: markStart_def)

lemma isAtEnd_markStart [simp]: "isAtEnd (markStart L) = isAtEnd L"
  by (simp add: isAtEnd_def)

function nextToken :: "Lexer \<Rightarrow> Token option \<times> Lexer" where
  "nextToken L0 =
     (let L1 = skipWhitespace L0 in
      if isAtEnd L1 then (None, L1)
      else
        (let L2 = markStart L1; c = peek L2; L3 = advance L2 in
         if c = CHR ''/'' \<and> fst (match L3 (CHR ''/''))
         then nextToken (skipComment (snd (match L3 (CHR ''/''))))
         else if isAlpha c then (case readIdentifier L3 of (t, L4) \<Rightarrow> (Some t, L4))
         else if isDigit c then (case readNumber L3 of (t, L4) \<Rightarrow> (Some t, L4))
         else if c = dquote then (case readString L3 of (t, L4) \<Rightarrow> (Some t, L4))
         else (case readOperator L3 of (t, L4) \<Rightarrow> (Some t, L4))))"
  by pat_completeness auto
termination
proof (relation "measure (\<lambda>L. length (remaining L))")
  show "wf (measure (\<lambda>L. length (remaining L)))" by simp
next
  fix L0 L1 L2 c L3
  assume a: "L1 = skipWhitespace L0" "\<not> isAtEnd L1" "L2 = markStart L1" "L3 = advance L2"
  have "length (remaining (skipComment (snd (match L3 (CHR ''/''))))) \<le> length (remaining L3)"
    using skipComment_remaining [of "snd (match L3 (CHR ''/''))"] match_remaining_le [of L3 "CHR ''/''"]
    by simp
  also have "\<dots> < length (remaining L1)" using a advance_remaining [of L2] by simp
  also have "\<dots> \<le> length (remaining L0)" using a skipWhitespace_remaining by simp
  finally show "(skipComment (snd (match L3 (CHR ''/''))), L0) \<in> measure (\<lambda>L. length (remaining L))"
    by simp
qed

declare nextToken.simps [simp del]

lemma nextToken_remaining_le:
  "length (remaining (snd (nextToken L0))) \<le> length (remaining L0)"
proof (induction L0 rule: nextToken.induct)
  case (1 L0)
  let ?L1 = "skipWhitespace L0"
  let ?L3 = "advance (markStart ?L1)"
  let ?c = "peek (markStart ?L1)"
  have l1: "length (remaining ?L1) \<le> length (remaining L0)"
    by (rule skipWhitespace_remaining)
  have l3: "length (remaining ?L3) \<le> length (remaining L0)"
    using advance_remaining_le [of "markStart ?L1"] l1 by simp
  show ?case
  proof (cases "isAtEnd ?L1")
    case True
    then show ?thesis using l1 by (subst nextToken.simps) (simp add: Let_def)
  next
    case False
    show ?thesis
    proof (cases "?c = CHR ''/'' \<and> fst (match ?L3 (CHR ''/''))")
      case True
      let ?X = "skipComment (snd (match ?L3 (CHR ''/'')))"
      have eq: "nextToken L0 = nextToken ?X"
        using False True by (subst nextToken.simps) (simp add: Let_def)
      have "length (remaining (snd (nextToken ?X))) \<le> length (remaining ?X)"
        by (rule "1.IH" [OF refl False refl refl refl True])
      also have "\<dots> \<le> length (remaining ?L3)"
        using skipComment_remaining [of "snd (match ?L3 (CHR ''/''))"]
          match_remaining_le [of ?L3 "CHR ''/''"] by simp
      finally show ?thesis using eq l3 by simp
    next
      case nc: False
      have eq: "nextToken L0 =
          (if isAlpha ?c then (case readIdentifier ?L3 of (t, L4) \<Rightarrow> (Some t, L4))
           else if isDigit ?c then (case readNumber ?L3 of (t, L4) \<Rightarrow> (Some t, L4))
           else if ?c = dquote then (case readString ?L3 of (t, L4) \<Rightarrow> (Some t, L4))
           else (case readOperator ?L3 of (t, L4) \<Rightarrow> (Some t, L4)))"
        by (subst nextToken.simps) (simp only: Let_def False nc if_False)
      show ?thesis
        using l3 readIdentifier_remaining [of ?L3] readNumber_remaining [of ?L3]
          readString_remaining [of ?L3] readOperator_remaining [of ?L3]
        by (auto simp: eq split: prod.splits)
    qed
  qed
qed

text \<open>A call of \<open>nextToken\<close> away from the end of the source consumes at least one
  character: it skips to the end, or it calls \<open>advance\<close>.\<close>

lemma nextToken_remaining:
  assumes "\<not> isAtEnd L0"
  shows "length (remaining (snd (nextToken L0))) < length (remaining L0)"
proof -
  let ?L1 = "skipWhitespace L0"
  let ?L3 = "advance (markStart ?L1)"
  let ?c = "peek (markStart ?L1)"
  have l1: "length (remaining ?L1) \<le> length (remaining L0)"
    by (rule skipWhitespace_remaining)
  show ?thesis
  proof (cases "isAtEnd ?L1")
    case True
    then show ?thesis using assms
      by (subst nextToken.simps) (simp add: Let_def isAtEnd_def)
  next
    case False
    have l3: "length (remaining ?L3) < length (remaining L0)"
      using advance_remaining [of "markStart ?L1"] l1 False by simp
    show ?thesis
    proof (cases "?c = CHR ''/'' \<and> fst (match ?L3 (CHR ''/''))")
      case True
      let ?X = "skipComment (snd (match ?L3 (CHR ''/'')))"
      have eq: "nextToken L0 = nextToken ?X"
        using False True by (subst nextToken.simps) (simp add: Let_def)
      have "length (remaining (snd (nextToken ?X))) \<le> length (remaining ?X)"
        by (rule nextToken_remaining_le)
      also have "\<dots> \<le> length (remaining ?L3)"
        using skipComment_remaining [of "snd (match ?L3 (CHR ''/''))"]
          match_remaining_le [of ?L3 "CHR ''/''"] by simp
      finally show ?thesis using eq l3 by simp
    next
      case nc: False
      have eq: "nextToken L0 =
          (if isAlpha ?c then (case readIdentifier ?L3 of (t, L4) \<Rightarrow> (Some t, L4))
           else if isDigit ?c then (case readNumber ?L3 of (t, L4) \<Rightarrow> (Some t, L4))
           else if ?c = dquote then (case readString ?L3 of (t, L4) \<Rightarrow> (Some t, L4))
           else (case readOperator ?L3 of (t, L4) \<Rightarrow> (Some t, L4)))"
        by (subst nextToken.simps) (simp only: Let_def False nc if_False)
      show ?thesis
        using l3 readIdentifier_remaining [of ?L3] readNumber_remaining [of ?L3]
          readString_remaining [of ?L3] readOperator_remaining [of ?L3]
        by (auto simp: eq split: prod.splits)
    qed
  qed
qed

lemma tokenize_step:
  "\<not> isAtEnd L \<Longrightarrow> (a, y) = nextToken (markStart L) \<Longrightarrow>
   length (remaining y) < length (remaining L)"
  using nextToken_remaining [of "markStart L"]
  by (metis isAtEnd_markStart markStart_remaining snd_conv)

text \<open>The loop of \<open>tokenize\<close> with the vector \<open>tokens\<close>, and the END_OF_FILE token
  pushed after it.\<close>

function tokenizeLoop :: "Lexer \<Rightarrow> Token list \<Rightarrow> Token list" where
  "tokenizeLoop L tokens =
     (if \<not> isAtEnd L
      then (case nextToken (markStart L) of
              (Some t, L') \<Rightarrow> tokenizeLoop L' (tokens @ [t])
            | (None, L') \<Rightarrow> tokenizeLoop L' tokens)
      else tokens @ [Token TK_END_OF_FILE []])"
  by pat_completeness auto
termination
  by (relation "measure (\<lambda>(L, tokens). length (remaining L))")
     (auto intro: tokenize_step)

declare tokenizeLoop.simps [simp del]

definition tokenize :: "string \<Rightarrow> Token list" where
  "tokenize source = tokenizeLoop \<lparr>scanned = [], remaining = source\<rparr> []"

section \<open>Syntax tree (include/AST.h)\<close>

text \<open>The node classes, without their source locations. A null \<open>ExpressionPtr\<close> or
  \<open>StatementPtr\<close> member is \<open>None\<close>. \<open>Program\<close> holds the list of top-level
  statements.\<close>

datatype Expression =
    LiteralExpression string DataType
  | VariableExpression string
  | BinaryExpression Expression OperatorType Expression
  | UnaryExpression OperatorType Expression
  | AssignmentExpression string Expression
  | FunctionCallExpression string "Expression list"

datatype Statement =
    BlockStatement "Statement list"
  | VariableDeclaration string DataType "Expression option"
  | FunctionDeclaration string DataType "(string \<times> DataType) list" Statement
  | IfStatement Expression Statement "Statement option"
  | WhileStatement Expression Statement
  | ReturnStatement "Expression option"
  | ExpressionStatement Expression

type_synonym Program = "Statement list"

section \<open>The parser (src/Parser.cpp)\<close>

text \<open>The members of \<open>Parser\<close>. The parser runs on the vector that \<open>tokenize\<close>
  returns, whose last token is END_OF_FILE; \<open>advance\<close> never moves past that token,
  so \<open>tokens_[current_]\<close> stays in range. The names of the helper methods carry the
  suffix \<open>P\<close> where the lexer has a method of the same name.\<close>

record Parser =
  tokens :: "Token list"
  current :: nat
  hadError :: bool
  panicMode :: bool

text \<open>How a parsing method can end without a value: a \<open>CompilerError\<close> thrown with a
  message (its location prefix is left out), the \<open>assert(false)\<close> of
  \<open>SCARLET_UNREACHABLE\<close>, or the recursion bound of this model used up.\<close>

datatype ParseAbort = Thrown string | Unreachable | OutOfFuel

type_synonym 'a parsed = "ParseAbort + 'a \<times> Parser"

definition peekP :: "Parser \<Rightarrow> Token" where
  "peekP P = tokens P ! current P"

text \<open>\<open>previous\<close> is called after a successful \<open>match\<close>, \<open>consume\<close> or \<open>advance\<close>
  only, where \<open>current_\<close> is at least 1.\<close>

definition previous :: "Parser \<Rightarrow> Token" where
  "previous P = tokens P ! (current P - 1)"

definition isAtEndP :: "Parser \<Rightarrow> bool" where
  "isAtEndP P = (tokenType (peekP P) = TK_END_OF_FILE)"

definition advanceP :: "Parser \<Rightarrow> Parser" where
  "advanceP P = (if \<not> isAtEndP P then P\<lparr>current := current P + 1\<rparr> else P)"

definition check :: "Parser \<Rightarrow> TokenType \<Rightarrow> bool" where
  "check P t = (if isAtEndP P then False else tokenType (peekP P) = t)"

definition matchP :: "Parser \<Rightarrow> TokenType \<Rightarrow> bool \<times> Parser" where
  "matchP P t = (if check P t then (True, advanceP P) else (False, P))"

text \<open>\<open>match(t1) || match(t2) || ...\<close>, evaluated from the left and stopping at the
  first success.\<close>

fun matchAny :: "Parser \<Rightarrow> TokenType list \<Rightarrow> bool \<times> Parser" where
  "matchAny P [] = (False, P)"
| "matchAny P (t # ts) =
     (case matchP P t of (True, P') \<Rightarrow> (True, P') | (False, P') \<Rightarrow> matchAny P' ts)"

definition consume :: "Parser \<Rightarrow> TokenType \<Rightarrow> string \<Rightarrow> Token parsed" where
  "consume P t message =
     (if check P t then Inr (previous (advanceP P), advanceP P) else Inl (Thrown message))"

text \<open>\<open>error\<close> sets \<open>hadError_\<close> and \<open>panicMode_\<close> and then always throws; nothing
  reads the two flags after the exception has left the parser.\<close>

definition errorP :: "Parser \<Rightarrow> string \<Rightarrow> 'a parsed" where
  "errorP P message = Inl (Thrown message)"

definition parseType :: "Parser \<Rightarrow> DataType parsed" where
  "parseType P =
     (case matchP P TK_IDENTIFIER of
        (True, P1) \<Rightarrow>
          (let typeName = tokenValue (previous P1) in
           if typeName = ''int'' then Inr (INT', P1)
           else if typeName = ''float'' then Inr (FLOAT, P1)
           else if typeName = ''bool'' then Inr (BOOL, P1)
           else if typeName = ''string'' then Inr (STRING, P1)
           else if typeName = ''void'' then Inr (VOID, P1)
           else errorP P1 (''Unknown type: '' @ typeName))
      | (False, P1) \<Rightarrow> errorP P1 ''Expect type name.'')"

text \<open>The \<open>do ... while (match(COMMA))\<close> loop of \<open>parseParameters\<close>.\<close>

fun parametersLoop ::
  "nat \<Rightarrow> (string \<times> DataType) list \<Rightarrow> Parser \<Rightarrow> ((string \<times> DataType) list) parsed" where
  "parametersLoop fuel parameters P =
     (if fuel = 0 then Inl OutOfFuel
      else case consume P TK_IDENTIFIER ''Expect parameter name.'' of
        Inl e \<Rightarrow> Inl e
      | Inr (pname, P1) \<Rightarrow>
          (case consume P1 TK_COLON ''Expect ':' after parameter name.'' of
             Inl e \<Rightarrow> Inl e
           | Inr (_, P2) \<Rightarrow>
               (case parseType P2 of
                  Inl e \<Rightarrow> Inl e
                | Inr (ptype, P3) \<Rightarrow>
                    (case matchP P3 TK_COMMA of
                       (True, P4) \<Rightarrow>
                         parametersLoop (fuel - 1) (parameters @ [(tokenValue pname, ptype)]) P4
                     | (False, P4) \<Rightarrow> Inr (parameters @ [(tokenValue pname, ptype)], P4)))))"

definition parseParameters :: "nat \<Rightarrow> Parser \<Rightarrow> ((string \<times> DataType) list) parsed" where
  "parseParameters fuel P =
     (if \<not> check P TK_RIGHT_PAREN then parametersLoop fuel [] P else Inr ([], P))"

text \<open>The operator chosen after a successful match in \<open>parseComparison\<close> and in
  \<open>parseFactor\<close> (the two \<open>switch\<close> statements; \<open>None\<close> is the \<open>default\<close> branch).\<close>

definition comparisonOp :: "TokenType \<Rightarrow> OperatorType option" where
  "comparisonOp t =
     (if t = TK_GREATER then Some GREATER
      else if t = TK_GREATER_EQUAL then Some GREATER_EQUAL
      else if t = TK_LESS then Some LESS
      else if t = TK_LESS_EQUAL then Some LESS_EQUAL
      else None)"

definition factorOp :: "TokenType \<Rightarrow> OperatorType option" where
  "factorOp t =
     (if t = TK_MULTIPLY then Some MULTIPLY
      else if t = TK_SLASH then Some DIVIDE
      else if t = TK_MODULO then Some MODULO
      else None)"

text \<open>The expression methods call each other: down the precedence levels, and back
  up to \<open>parseExpression\<close> from \<open>parsePrimary\<close>. The cycle is cut at that one call:
  every method below takes the method \<open>parseExpression\<close> as its first argument
  \<open>parseExpr\<close>, and \<open>parseExpression\<close> itself, defined last, passes itself on. Each
  \<open>while\<close> loop is the function named \<open>...Loop\<close> after its method. \<open>fuel\<close> bounds
  the depth of the calls and the number of iterations.\<close>

definition parsePrimary :: "(Parser \<Rightarrow> Expression parsed) \<Rightarrow> Parser \<Rightarrow> Expression parsed" where
  "parsePrimary parseExpr P =
     (if fst (matchP P TK_FALSE)
        then Inr (LiteralExpression ''false'' BOOL, snd (matchP P TK_FALSE))
      else if fst (matchP P TK_TRUE)
        then Inr (LiteralExpression ''true'' BOOL, snd (matchP P TK_TRUE))
      else if fst (matchP P TK_NULL_LITERAL)
        then Inr (LiteralExpression ''null'' UNKNOWN, snd (matchP P TK_NULL_LITERAL))
      else if fst (matchP P TK_INTEGER)
        then (let P1 = snd (matchP P TK_INTEGER) in
              Inr (LiteralExpression (tokenValue (previous P1)) INT', P1))
      else if fst (matchP P TK_FLOAT)
        then (let P1 = snd (matchP P TK_FLOAT) in
              Inr (LiteralExpression (tokenValue (previous P1)) FLOAT, P1))
      else if fst (matchP P TK_STRING)
        then (let P1 = snd (matchP P TK_STRING) in
              Inr (LiteralExpression (tokenValue (previous P1)) STRING, P1))
      else if fst (matchP P TK_IDENTIFIER)
        then (let P1 = snd (matchP P TK_IDENTIFIER) in
              Inr (VariableExpression (tokenValue (previous P1)), P1))
      else if fst (matchP P TK_LEFT_PAREN)
        then (case parseExpr (snd (matchP P TK_LEFT_PAREN)) of
                Inl e \<Rightarrow> Inl e
              | Inr (expr, P1) \<Rightarrow>
                  (case consume P1 TK_RIGHT_PAREN ''Expect ')' after expression.'' of
                     Inl e \<Rightarrow> Inl e
                   | Inr (_, P2) \<Rightarrow> Inr (expr, P2)))
      else Inl (Thrown ''Expect expression.''))"

fun parseUnary :: "(Parser \<Rightarrow> Expression parsed) \<Rightarrow> nat \<Rightarrow> Parser \<Rightarrow> Expression parsed" where
  "parseUnary parseExpr fuel P =
     (if fuel = 0 then Inl OutOfFuel
      else case matchAny P [TK_NOT, TK_MINUS] of
        (True, P1) \<Rightarrow>
          (case parseUnary parseExpr (fuel - 1) P1 of
             Inl e \<Rightarrow> Inl e
           | Inr (right, P2) \<Rightarrow>
               Inr (UnaryExpression
                      (if tokenType (previous P1) = TK_MINUS then SUBTRACT else NOT) right, P2))
      | (False, P1) \<Rightarrow> parsePrimary parseExpr P1)"

fun factorLoop ::
  "(Parser \<Rightarrow> Expression parsed) \<Rightarrow> nat \<Rightarrow> Expression \<Rightarrow> Parser \<Rightarrow> Expression parsed" where
  "factorLoop parseExpr fuel expr P =
     (if fuel = 0 then Inl OutOfFuel
      else case matchAny P [TK_SLASH, TK_MULTIPLY, TK_MODULO] of
        (True, P1) \<Rightarrow>
          (case parseUnary parseExpr fuel P1 of
             Inl e \<Rightarrow> Inl e
           | Inr (right, P2) \<Rightarrow>
               (case factorOp (tokenType (previous P1)) of
                  None \<Rightarrow> Inl Unreachable
                | Some op \<Rightarrow>
                    factorLoop parseExpr (fuel - 1) (BinaryExpression expr op right) P2))
      | (False, P1) \<Rightarrow> Inr (expr, P1))"

definition parseFactor ::
  "(Parser \<Rightarrow> Expression parsed) \<Rightarrow> nat \<Rightarrow> Parser \<Rightarrow> Expression parsed" where
  "parseFactor parseExpr fuel P =
     (case parseUnary parseExpr fuel P of
        Inl e \<Rightarrow> Inl e
      | Inr (expr, P1) \<Rightarrow> factorLoop parseExpr fuel expr P1)"

fun termLoop ::
  "(Parser \<Rightarrow> Expression parsed) \<Rightarrow> nat \<Rightarrow> Expression \<Rightarrow> Parser \<Rightarrow> Expression parsed" where
  "termLoop parseExpr fuel expr P =
     (if fuel = 0 then Inl OutOfFuel
      else case matchAny P [TK_MINUS, TK_PLUS] of
        (True, P1) \<Rightarrow>
          (case parseFactor parseExpr fuel P1 of
             Inl e \<Rightarrow> Inl e
           | Inr (right, P2) \<Rightarrow>
               termLoop parseExpr (fuel - 1)
                 (BinaryExpression expr
                    (if tokenType (previous P1) = TK_PLUS then ADD else SUBTRACT) right) P2)
      | (False, P1) \<Rightarrow> Inr (expr, P1))"

definition parseTerm ::
  "(Parser \<Rightarrow> Expression parsed) \<Rightarrow> nat \<Rightarrow> Parser \<Rightarrow> Expression parsed" where
  "parseTerm parseExpr fuel P =
     (case parseFactor parseExpr fuel P of
        Inl e \<Rightarrow> Inl e
      | Inr (expr, P1) \<Rightarrow> termLoop parseExpr fuel expr P1)"

fun comparisonLoop ::
  "(Parser \<Rightarrow> Expression parsed) \<Rightarrow> nat \<Rightarrow> Expression \<Rightarrow> Parser \<Rightarrow> Expression parsed" where
  "comparisonLoop parseExpr fuel expr P =
     (if fuel = 0 then Inl OutOfFuel
      else case matchAny P [TK_GREATER, TK_GREATER_EQUAL, TK_LESS, TK_LESS_EQUAL] of
        (True, P1) \<Rightarrow>
          (case parseTerm parseExpr fuel P1 of
             Inl e \<Rightarrow> Inl e
           | Inr (right, P2) \<Rightarrow>
               (case comparisonOp (tokenType (previous P1)) of
                  None \<Rightarrow> Inl Unreachable
                | Some op \<Rightarrow>
                    comparisonLoop parseExpr (fuel - 1) (BinaryExpression expr op right) P2))
      | (False, P1) \<Rightarrow> Inr (expr, P1))"

definition parseComparison ::
  "(Parser \<Rightarrow> Expression parsed) \<Rightarrow> nat \<Rightarrow> Parser \<Rightarrow> Expression parsed" where
  "parseComparison parseExpr fuel P =
     (case parseTerm parseExpr fuel P of
        Inl e \<Rightarrow> Inl e
      | Inr (expr, P1) \<Rightarrow> comparisonLoop parseExpr fuel expr P1)"

fun equalityLoop ::
  "(Parser \<Rightarrow> Expression parsed) \<Rightarrow> nat \<Rightarrow> Expression \<Rightarrow> Parser \<Rightarrow> Expression parsed" where
  "equalityLoop parseExpr fuel expr P =
     (if fuel = 0 then Inl OutOfFuel
      else case matchAny P [TK_NOT_EQUAL, TK_EQUAL] of
        (True, P1) \<Rightarrow>
          (case parseComparison parseExpr fuel P1 of
             Inl e \<Rightarrow> Inl e
           | Inr (right, P2) \<Rightarrow>
               equalityLoop parseExpr (fuel - 1)
                 (BinaryExpression expr
                    (if tokenType (previous P1) = TK_EQUAL then EQUAL else NOT_EQUAL) right) P2)
      | (False, P1) \<Rightarrow> Inr (expr, P1))"

definition parseEquality ::
  "(Parser \<Rightarrow> Expression parsed) \<Rightarrow> nat \<Rightarrow> Parser \<Rightarrow> Expression parsed" where
  "parseEquality parseExpr fuel P =
     (case parseComparison parseExpr fuel P of
        Inl e \<Rightarrow> Inl e
      | Inr (expr, P1) \<Rightarrow> equalityLoop parseExpr fuel expr P1)"

fun logicalAndLoop ::
  "(Parser \<Rightarrow> Expression parsed) \<Rightarrow> nat \<Rightarrow> Expression \<Rightarrow> Parser \<Rightarrow> Expression parsed" where
  "logicalAndLoop parseExpr fuel expr P =
     (if fuel = 0 then Inl OutOfFuel
      else case matchP P TK_AND of
        (True, P1) \<Rightarrow>
          (case parseEquality parseExpr fuel P1 of
             Inl e \<Rightarrow> Inl e
           | Inr (right, P2) \<Rightarrow>
               logicalAndLoop parseExpr (fuel - 1) (BinaryExpression expr AND right) P2)
      | (False, P1) \<Rightarrow> Inr (expr, P1))"

definition parseLogicalAnd ::
  "(Parser \<Rightarrow> Expression parsed) \<Rightarrow> nat \<Rightarrow> Parser \<Rightarrow> Expression parsed" where
  "parseLogicalAnd parseExpr fuel P =
     (case parseEquality parseExpr fuel P of
        Inl e \<Rightarrow> Inl e
      | Inr (expr, P1) \<Rightarrow> logicalAndLoop parseExpr fuel expr P1)"

fun logicalOrLoop ::
  "(Parser \<Rightarrow> Expression parsed) \<Rightarrow> nat \<Rightarrow> Expression \<Rightarrow> Parser \<Rightarrow> Expression parsed" where
  "logicalOrLoop parseExpr fuel expr P =
     (if fuel = 0 then Inl OutOfFuel
      else case matchP P TK_OR of
        (True, P1) \<Rightarrow>
          (case parseLogicalAnd parseExpr fuel P1 of
             Inl e \<Rightarrow> Inl e
           | Inr (right, P2) \<Rightarrow>
               logicalOrLoop parseExpr (fuel - 1) (BinaryExpression expr OR right) P2)
      | (False, P1) \<Rightarrow> Inr (expr, P1))"

definition parseLogicalOr ::
  "(Parser \<Rightarrow> Expression parsed) \<Rightarrow> nat \<Rightarrow> Parser \<Rightarrow> Expression parsed" where
  "parseLogicalOr parseExpr fuel P =
     (case parseLogicalAnd parseExpr fuel P of
        Inl e \<Rightarrow> Inl e
      | Inr (expr, P1) \<Rightarrow> logicalOrLoop parseExpr fuel expr P1)"

fun parseAssignment ::
  "(Parser \<Rightarrow> Expression parsed) \<Rightarrow> nat \<Rightarrow> Parser \<Rightarrow> Expression parsed" where
  "parseAssignment parseExpr fuel P =
     (if fuel = 0 then Inl OutOfFuel
      else case parseLogicalOr parseExpr fuel P of
        Inl e \<Rightarrow> Inl e
      | Inr (expr, P1) \<Rightarrow>
          (case matchP P1 TK_ASSIGN of
             (True, P2) \<Rightarrow>
               (case parseAssignment parseExpr (fuel - 1) P2 of
                  Inl e \<Rightarrow> Inl e
                | Inr (val, P3) \<Rightarrow>
                    (case expr of
                       VariableExpression vname \<Rightarrow> Inr (AssignmentExpression vname val, P3)
                     | _ \<Rightarrow> errorP P3 ''Invalid assignment target''))
           | (False, P2) \<Rightarrow> Inr (expr, P2)))"

fun parseExpression :: "nat \<Rightarrow> Parser \<Rightarrow> Expression parsed" where
  "parseExpression fuel P =
     (if fuel = 0 then Inl OutOfFuel
      else parseAssignment (\<lambda>P'. parseExpression (fuel - 1) P') fuel P)"

section \<open>Statements and the program (src/Parser.cpp)\<close>

definition parseExpressionStatement :: "nat \<Rightarrow> Parser \<Rightarrow> Statement parsed" where
  "parseExpressionStatement fuel P =
     (case parseExpression fuel P of
        Inl e \<Rightarrow> Inl e
      | Inr (expr, P1) \<Rightarrow>
          (case consume P1 TK_SEMICOLON ''Expect ';' after expression.'' of
             Inl e \<Rightarrow> Inl e
           | Inr (_, P2) \<Rightarrow> Inr (ExpressionStatement expr, P2)))"

definition parseReturnStatement :: "nat \<Rightarrow> Parser \<Rightarrow> Statement parsed" where
  "parseReturnStatement fuel P =
     (case (if \<not> check P TK_SEMICOLON
            then (case parseExpression fuel P of
                    Inl e \<Rightarrow> Inl e
                  | Inr (expr, P1) \<Rightarrow> Inr (Some expr, P1))
            else Inr (None, P)) of
        Inl e \<Rightarrow> Inl e
      | Inr (val, P1) \<Rightarrow>
          (case consume P1 TK_SEMICOLON ''Expect ';' after return value.'' of
             Inl e \<Rightarrow> Inl e
           | Inr (_, P2) \<Rightarrow> Inr (ReturnStatement val, P2)))"

definition parseVariableDeclaration :: "nat \<Rightarrow> Parser \<Rightarrow> Statement parsed" where
  "parseVariableDeclaration fuel P =
     (case consume P TK_IDENTIFIER ''Expect variable name.'' of
        Inl e \<Rightarrow> Inl e
      | Inr (vname, P1) \<Rightarrow>
          (case (case matchP P1 TK_COLON of
                   (True, P2) \<Rightarrow> parseType P2
                 | (False, P2) \<Rightarrow> Inr (UNKNOWN, P2)) of
             Inl e \<Rightarrow> Inl e
           | Inr (vtype, P3) \<Rightarrow>
               (case (case matchP P3 TK_ASSIGN of
                        (True, P4) \<Rightarrow>
                          (case parseExpression fuel P4 of
                             Inl e \<Rightarrow> Inl e
                           | Inr (expr, P5) \<Rightarrow> Inr (Some expr, P5))
                      | (False, P4) \<Rightarrow> Inr (None, P4)) of
                  Inl e \<Rightarrow> Inl e
                | Inr (initializer, P6) \<Rightarrow>
                    (case consume P6 TK_SEMICOLON ''Expect ';' after variable declaration.'' of
                       Inl e \<Rightarrow> Inl e
                     | Inr (_, P7) \<Rightarrow>
                         Inr (VariableDeclaration (tokenValue vname) vtype initializer, P7)))))"

text \<open>The statement methods call each other through \<open>parseStatement\<close>; as for the
  expressions, they take that method as their first argument \<open>parseStmt\<close>.\<close>

fun blockLoop ::
  "(Parser \<Rightarrow> Statement parsed) \<Rightarrow> nat \<Rightarrow> Statement list \<Rightarrow> Parser \<Rightarrow> (Statement list) parsed"
  where
  "blockLoop parseStmt fuel statements P =
     (if fuel = 0 then Inl OutOfFuel
      else if \<not> check P TK_RIGHT_BRACE \<and> \<not> isAtEndP P
      then (case parseStmt P of
              Inl e \<Rightarrow> Inl e
            | Inr (stmt, P1) \<Rightarrow> blockLoop parseStmt (fuel - 1) (statements @ [stmt]) P1)
      else Inr (statements, P))"

definition parseBlockStatement ::
  "(Parser \<Rightarrow> Statement parsed) \<Rightarrow> nat \<Rightarrow> Parser \<Rightarrow> Statement parsed" where
  "parseBlockStatement parseStmt fuel P =
     (case blockLoop parseStmt fuel [] P of
        Inl e \<Rightarrow> Inl e
      | Inr (statements, P1) \<Rightarrow>
          (case consume P1 TK_RIGHT_BRACE ''Expect '}' after block.'' of
             Inl e \<Rightarrow> Inl e
           | Inr (_, P2) \<Rightarrow> Inr (BlockStatement statements, P2)))"

definition parseIfStatement ::
  "(Parser \<Rightarrow> Statement parsed) \<Rightarrow> nat \<Rightarrow> Parser \<Rightarrow> Statement parsed" where
  "parseIfStatement parseStmt fuel P =
     (case consume P TK_LEFT_PAREN ''Expect '(' after 'if'.'' of
        Inl e \<Rightarrow> Inl e
      | Inr (_, P1) \<Rightarrow>
          (case parseExpression fuel P1 of
             Inl e \<Rightarrow> Inl e
           | Inr (condition, P2) \<Rightarrow>
               (case consume P2 TK_RIGHT_PAREN ''Expect ')' after if condition.'' of
                  Inl e \<Rightarrow> Inl e
                | Inr (_, P3) \<Rightarrow>
                    (case parseStmt P3 of
                       Inl e \<Rightarrow> Inl e
                     | Inr (thenBranch, P4) \<Rightarrow>
                         (case matchP P4 TK_ELSE of
                            (True, P5) \<Rightarrow>
                              (case parseStmt P5 of
                                 Inl e \<Rightarrow> Inl e
                               | Inr (elseBranch, P6) \<Rightarrow>
                                   Inr (IfStatement condition thenBranch (Some elseBranch), P6))
                          | (False, P5) \<Rightarrow>
                              Inr (IfStatement condition thenBranch None, P5))))))"

definition parseWhileStatement ::
  "(Parser \<Rightarrow> Statement parsed) \<Rightarrow> nat \<Rightarrow> Parser \<Rightarrow> Statement parsed" where
  "parseWhileStatement parseStmt fuel P =
     (case consume P TK_LEFT_PAREN ''Expect '(' after 'while'.'' of
        Inl e \<Rightarrow> Inl e
      | Inr (_, P1) \<Rightarrow>
          (case parseExpression fuel P1 of
             Inl e \<Rightarrow> Inl e
           | Inr (condition, P2) \<Rightarrow>
               (case consume P2 TK_RIGHT_PAREN ''Expect ')' after condition.'' of
                  Inl e \<Rightarrow> Inl e
                | Inr (_, P3) \<Rightarrow>
                    (case parseStmt P3 of
                       Inl e \<Rightarrow> Inl e
                     | Inr (body, P4) \<Rightarrow> Inr (WhileStatement condition body, P4)))))"

definition parseFunctionDeclaration ::
  "(Parser \<Rightarrow> Statement parsed) \<Rightarrow> nat \<Rightarrow> Parser \<Rightarrow> Statement parsed" where
  "parseFunctionDeclaration parseStmt fuel P =
     (case consume P TK_IDENTIFIER ''Expect function name.'' of
        Inl e \<Rightarrow> Inl e
      | Inr (fname, P1) \<Rightarrow>
          (case consume P1 TK_LEFT_PAREN ''Expect '(' after function name.'' of
             Inl e \<Rightarrow> Inl e
           | Inr (_, P2) \<Rightarrow>
               (case parseParameters fuel P2 of
                  Inl e \<Rightarrow> Inl e
                | Inr (parameters, P3) \<Rightarrow>
                    (case consume P3 TK_RIGHT_PAREN ''Expect ')' after parameters.'' of
                       Inl e \<Rightarrow> Inl e
                     | Inr (_, P4) \<Rightarrow>
                         (case (case matchP P4 TK_COLON of
                                  (True, P5) \<Rightarrow> parseType P5
                                | (False, P5) \<Rightarrow> Inr (VOID, P5)) of
                            Inl e \<Rightarrow> Inl e
                          | Inr (rtype, P6) \<Rightarrow>
                              (case consume P6 TK_LEFT_BRACE ''Expect '{' before function body.'' of
                                 Inl e \<Rightarrow> Inl e
                               | Inr (_, P7) \<Rightarrow>
                                   (case parseBlockStatement parseStmt fuel P7 of
                                      Inl e \<Rightarrow> Inl e
                                    | Inr (body, P8) \<Rightarrow>
                                        Inr (FunctionDeclaration (tokenValue fname) rtype
                                               parameters body, P8))))))))"

fun parseStatement :: "nat \<Rightarrow> Parser \<Rightarrow> Statement parsed" where
  "parseStatement fuel P =
     (if fuel = 0 then Inl OutOfFuel
      else if fst (matchP P TK_IF)
        then parseIfStatement (\<lambda>P'. parseStatement (fuel - 1) P') fuel (snd (matchP P TK_IF))
      else if fst (matchP P TK_WHILE)
        then parseWhileStatement (\<lambda>P'. parseStatement (fuel - 1) P') fuel
               (snd (matchP P TK_WHILE))
      else if fst (matchP P TK_RETURN)
        then parseReturnStatement fuel (snd (matchP P TK_RETURN))
      else if fst (matchP P TK_LEFT_BRACE)
        then parseBlockStatement (\<lambda>P'. parseStatement (fuel - 1) P') fuel
               (snd (matchP P TK_LEFT_BRACE))
      else if fst (matchAny P [TK_VAR, TK_LET, TK_CONST])
        then parseVariableDeclaration fuel (snd (matchAny P [TK_VAR, TK_LET, TK_CONST]))
      else if fst (matchP P TK_FUNCTION)
        then parseFunctionDeclaration (\<lambda>P'. parseStatement (fuel - 1) P') fuel
               (snd (matchP P TK_FUNCTION))
      else parseExpressionStatement fuel P)"

text \<open>The loop of \<open>parse\<close>. Its \<open>catch\<close> clause calls \<open>error(e.what())\<close>, which
  throws again before \<open>synchronize()\<close> is reached: the first \<open>CompilerError\<close> of a
  statement leaves \<open>parse\<close>.\<close>

fun parseLoop :: "nat \<Rightarrow> Statement list \<Rightarrow> Parser \<Rightarrow> ParseAbort + Program" where
  "parseLoop fuel statements P =
     (if fuel = 0 then Inl OutOfFuel
      else if \<not> isAtEndP P
      then (case parseStatement fuel P of
              Inl (Thrown message) \<Rightarrow> Inl (Thrown message)
            | Inl e \<Rightarrow> Inl e
            | Inr (stmt, P1) \<Rightarrow> parseLoop (fuel - 1) (statements @ [stmt]) P1)
      else Inr statements)"

text \<open>The constructor of \<open>Parser\<close>, and \<open>parse\<close> with a recursion bound that grows
  with the number of tokens.\<close>

definition newParser :: "Token list \<Rightarrow> Parser" where
  "newParser ts = \<lparr>tokens = ts, current = 0, hadError = False, panicMode = False\<rparr>"

definition parseFuel :: "Token list \<Rightarrow> nat" where
  "parseFuel ts = 2 * length ts + 2"

definition parse :: "Token list \<Rightarrow> ParseAbort + Program" where
  "parse ts = parseLoop (parseFuel ts) [] (newParser ts)"

section \<open>Type checking rules (src/Semantic.cpp, class TypeChecker)\<close>

definition isCompatible :: "DataType \<Rightarrow> DataType \<Rightarrow> bool" where
  "isCompatible from to =
     (if from = to then True
      else if from = UNKNOWN \<or> to = UNKNOWN then True
      else if from = INT' \<and> to = FLOAT then True
      else if from = FLOAT \<and> to = INT' then True
      else False)"

definition getResultType :: "OperatorType \<Rightarrow> DataType \<Rightarrow> DataType \<Rightarrow> DataType" where
  "getResultType op left right =
     (if op \<in> {ADD, SUBTRACT, MULTIPLY, DIVIDE, MODULO} then
        (if left = INT' \<and> right = INT' then INT'
         else if (left = INT' \<or> left = FLOAT) \<and> (right = INT' \<or> right = FLOAT)
           then (if left = FLOAT \<or> right = FLOAT then FLOAT else INT')
         else UNKNOWN)
      else if op \<in> {EQUAL, NOT_EQUAL, LESS, LESS_EQUAL, GREATER, GREATER_EQUAL} then BOOL
      else if op \<in> {AND, OR} then
        (if left = BOOL \<and> right = BOOL then BOOL else UNKNOWN)
      else UNKNOWN)"

definition getUnaryResultType :: "OperatorType \<Rightarrow> DataType \<Rightarrow> DataType" where
  "getUnaryResultType op operand =
     (if op = SUBTRACT then (if operand = INT' \<or> operand = FLOAT then operand else UNKNOWN)
      else if op = NOT then (if operand = BOOL then BOOL else UNKNOWN)
      else UNKNOWN)"

definition dataTypeToString :: "DataType \<Rightarrow> string" where
  "dataTypeToString t =
     (case t of
        VOID \<Rightarrow> ''void'' | INT' \<Rightarrow> ''int'' | FLOAT \<Rightarrow> ''float'' | BOOL \<Rightarrow> ''bool''
      | STRING \<Rightarrow> ''string'' | ARRAY \<Rightarrow> ''array'' | FUNCTION \<Rightarrow> ''function''
      | UNKNOWN \<Rightarrow> ''unknown'')"

text \<open>\<open>std::to_string\<close> on a \<open>size_t\<close>: the decimal digits.\<close>

fun to_string :: "nat \<Rightarrow> string" where
  "to_string n =
     (if n < 10 then [char_of (48 + n)]
      else to_string (n div 10) @ [char_of (48 + n mod 10)])"

declare to_string.simps [simp del]

section \<open>The semantic analyzer (src/Semantic.cpp, class SemanticAnalyzer)\<close>

text \<open>The state of the analyzer: its own symbol table and flags, and the list
  \<open>errors_\<close> of its \<open>typeChecker_\<close>. A diagnostic is kept as its message; the source
  prefixes the location.\<close>

record SemanticAnalyzer =
  errors :: "string list"
  symbolTable :: SymbolTable
  currentExpressionType :: DataType
  inLoop :: bool
  inFunction :: bool
  currentFunctionReturnType :: DataType

definition reportError :: "SemanticAnalyzer \<Rightarrow> string \<Rightarrow> SemanticAnalyzer" where
  "reportError st message = st\<lparr>errors := errors st @ [message]\<rparr>"

text \<open>\<open>BuiltinFunctions::registerBuiltins\<close>: \<open>print\<close>, \<open>input\<close> and \<open>sqrt\<close>, inserted
  in that order.\<close>

definition registerBuiltins :: "SymbolTable \<Rightarrow> SymbolTable" where
  "registerBuiltins t =
     (let t1 = snd (insert_sym t ''print''
                 ((mkSymbol ''print'' FUNCTION True)
                    \<lparr>parameterTypes := [STRING], returnType := Some VOID\<rparr>));
          t2 = snd (insert_sym t1 ''input''
                 ((mkSymbol ''input'' FUNCTION True)
                    \<lparr>parameterTypes := [], returnType := Some STRING\<rparr>));
          t3 = snd (insert_sym t2 ''sqrt''
                 ((mkSymbol ''sqrt'' FUNCTION True)
                    \<lparr>parameterTypes := [FLOAT], returnType := Some FLOAT\<rparr>))
      in t3)"

text \<open>The constructor of \<open>SemanticAnalyzer\<close>.\<close>

definition newSemanticAnalyzer :: SemanticAnalyzer where
  "newSemanticAnalyzer =
     \<lparr>errors = [], symbolTable = registerBuiltins newSymbolTable,
      currentExpressionType = UNKNOWN, inLoop = False, inFunction = False,
      currentFunctionReturnType = VOID\<rparr>"

text \<open>Modelled from the spec: the visitor methods of \<open>SemanticAnalyzer\<close> call
  \<open>checkExpression\<close>, which src/ defines for \<open>TypeChecker\<close> only (\<open>expr->accept(*this);
  return currentExpressionType_;\<close>). The analyzer's call is taken to do the same on the
  analyzer: the type of an operand is \<open>currentExpressionType\<close> of the state after its
  visit.

  The expression visitors: \<open>visitExpression e st\<close> is \<open>e->accept(*this)\<close>, the state
  after the visitor method of the node's class. \<open>checkArguments\<close> is the loop of
  \<open>visitFunctionCallExpression\<close> over the arguments, with its index \<open>i\<close>.\<close>

fun visitExpression :: "Expression \<Rightarrow> SemanticAnalyzer \<Rightarrow> SemanticAnalyzer"
  and checkArguments ::
    "Expression list \<Rightarrow> DataType list \<Rightarrow> nat \<Rightarrow> SemanticAnalyzer \<Rightarrow> SemanticAnalyzer"
where
  "visitExpression (LiteralExpression v t) st = st\<lparr>currentExpressionType := t\<rparr>"
| "visitExpression (VariableExpression vname) st =
     (case lookup (symbolTable st) vname of
        None \<Rightarrow> (reportError st (''Undefined variable: '' @ vname))
                  \<lparr>currentExpressionType := UNKNOWN\<rparr>
      | Some symbol \<Rightarrow> st\<lparr>currentExpressionType := type symbol\<rparr>)"
| "visitExpression (BinaryExpression left op right) st =
     (let st1 = visitExpression left st; leftType = currentExpressionType st1;
          st2 = visitExpression right st1; rightType = currentExpressionType st2;
          st3 = st2\<lparr>currentExpressionType := getResultType op leftType rightType\<rparr>
      in if currentExpressionType st3 = UNKNOWN
         then reportError st3 (''Invalid operation between types '' @
                dataTypeToString leftType @ '' and '' @ dataTypeToString rightType)
         else st3)"
| "visitExpression (UnaryExpression op operand) st =
     (let st1 = visitExpression operand st; operandType = currentExpressionType st1;
          st2 = st1\<lparr>currentExpressionType := getUnaryResultType op operandType\<rparr>
      in if currentExpressionType st2 = UNKNOWN
         then reportError st2 (''Invalid unary operation on type '' @
                dataTypeToString operandType)
         else st2)"
| "visitExpression (AssignmentExpression vname val) st =
     (let st1 = visitExpression val st; valueType = currentExpressionType st1
      in case lookup (symbolTable st1) vname of
           None \<Rightarrow> (reportError st1 (''Undefined variable: '' @ vname))
                     \<lparr>currentExpressionType := UNKNOWN\<rparr>
         | Some symbol \<Rightarrow>
             (let st2 = (if \<not> isCompatible valueType (type symbol)
                         then reportError st1 (''Cannot assign '' @ dataTypeToString valueType @
                                '' to variable of type '' @ dataTypeToString (type symbol))
                         else st1)
              in st2\<lparr>currentExpressionType := type symbol\<rparr>))"
| "visitExpression (FunctionCallExpression fname arguments) st =
     (case lookup (symbolTable st) fname of
        None \<Rightarrow> (reportError st (''Undefined function: '' @ fname))
                  \<lparr>currentExpressionType := UNKNOWN\<rparr>
      | Some symbol \<Rightarrow>
          if \<not> isFunction symbol
          then (reportError st (''Undefined function: '' @ fname))
                 \<lparr>currentExpressionType := UNKNOWN\<rparr>
          else if length arguments \<noteq> length (parameterTypes symbol)
          then (reportError st (''Function '' @ fname @ '' expects '' @
                  to_string (length (parameterTypes symbol)) @ '' arguments, got '' @
                  to_string (length arguments)))
                 \<lparr>currentExpressionType := UNKNOWN\<rparr>
          else (checkArguments arguments (parameterTypes symbol) 0 st)
                 \<lparr>currentExpressionType :=
                    (case returnType symbol of Some t \<Rightarrow> t | None \<Rightarrow> UNKNOWN)\<rparr>)"
| "checkArguments [] ptypes i st = st"
| "checkArguments (arg # rest) ptypes i st =
     (let st1 = visitExpression arg st; argType = currentExpressionType st1;
          st2 = (if \<not> isCompatible argType (ptypes ! i)
                 then reportError st1 (''Argument '' @ to_string (i + 1) @ '' type mismatch'')
                 else st1)
      in checkArguments rest ptypes (i + 1) st2)"

text \<open>Modelled from the spec: \<open>checkExpression\<close> on the analyzer, as described above:
  the visit, and the type it left in \<open>currentExpressionType_\<close>.\<close>

definition checkExpression :: "Expression \<Rightarrow> SemanticAnalyzer \<Rightarrow> DataType \<times> SemanticAnalyzer" where
  "checkExpression e st = (currentExpressionType (visitExpression e st), visitExpression e st)"

text \<open>The statement visitors that do not visit other statements.\<close>

definition visitVariableDeclaration ::
  "string \<Rightarrow> DataType \<Rightarrow> Expression option \<Rightarrow> SemanticAnalyzer \<Rightarrow> SemanticAnalyzer" where
  "visitVariableDeclaration vname vtype initializer st =
     (let (initializerType, st1) =
            (case initializer of None \<Rightarrow> (UNKNOWN, st) | Some e \<Rightarrow> checkExpression e st);
          (declaredType, st2) =
            (if vtype = UNKNOWN then (initializerType, st1)
             else if initializerType \<noteq> UNKNOWN \<and> \<not> isCompatible initializerType vtype
               then (vtype, reportError st1 (''Cannot initialize '' @ dataTypeToString vtype @
                       '' with '' @ dataTypeToString initializerType))
             else (vtype, st1));
          (inserted, table) = insert_sym (symbolTable st2) vname (mkSymbol vname declaredType False);
          st3 = st2\<lparr>symbolTable := table\<rparr>
      in if \<not> inserted then reportError st3 (''Variable already declared: '' @ vname) else st3)"

definition visitReturnStatement :: "Expression option \<Rightarrow> SemanticAnalyzer \<Rightarrow> SemanticAnalyzer" where
  "visitReturnStatement val st =
     (if \<not> inFunction st then reportError st ''Return statement outside function''
      else
        (let (returnType, st1) =
               (case val of None \<Rightarrow> (VOID, st) | Some e \<Rightarrow> checkExpression e st)
         in if \<not> isCompatible returnType (currentFunctionReturnType st1)
            then reportError st1 ''Return type mismatch''
            else st1))"

text \<open>The loop of \<open>visitFunctionDeclaration\<close> that inserts the parameters; the result
  of \<open>insert\<close> is ignored there.\<close>

fun insertParameters :: "(string \<times> DataType) list \<Rightarrow> SymbolTable \<Rightarrow> SymbolTable" where
  "insertParameters [] t = t"
| "insertParameters ((pname, ptype) # rest) t =
     insertParameters rest (snd (insert_sym t pname (mkSymbol pname ptype False)))"

fun visitStatement :: "Statement \<Rightarrow> SemanticAnalyzer \<Rightarrow> SemanticAnalyzer"
  and visitStatements :: "Statement list \<Rightarrow> SemanticAnalyzer \<Rightarrow> SemanticAnalyzer"
where
  "visitStatement (BlockStatement statements) st =
     (let st1 = st\<lparr>symbolTable := enterScope (symbolTable st)\<rparr>;
          st2 = visitStatements statements st1
      in st2\<lparr>symbolTable := exitScope (symbolTable st2)\<rparr>)"
| "visitStatement (VariableDeclaration vname vtype initializer) st =
     visitVariableDeclaration vname vtype initializer st"
| "visitStatement (FunctionDeclaration fname rtype parameters body) st =
     (let symbol = (mkSymbol fname rtype True)
                     \<lparr>parameterTypes := map snd parameters, returnType := Some rtype\<rparr>;
          (inserted, table) = insert_sym (symbolTable st) fname symbol
      in if \<not> inserted then reportError st (''Function already declared: '' @ fname)
         else
           (let st1 = st\<lparr>symbolTable := enterScope table\<rparr>;
                wasInFunction = inFunction st1;
                wasReturnType = currentFunctionReturnType st1;
                st2 = st1\<lparr>inFunction := True, currentFunctionReturnType := rtype\<rparr>;
                st3 = st2\<lparr>symbolTable := insertParameters parameters (symbolTable st2)\<rparr>;
                st4 = visitStatement body st3;
                st5 = st4\<lparr>inFunction := wasInFunction,
                          currentFunctionReturnType := wasReturnType\<rparr>
            in st5\<lparr>symbolTable := exitScope (symbolTable st5)\<rparr>))"
| "visitStatement (IfStatement condition thenBranch elseBranch) st =
     (let (conditionType, st1) = checkExpression condition st;
          st2 = (if conditionType \<noteq> BOOL then reportError st1 ''If condition must be boolean''
                 else st1);
          st3 = visitStatement thenBranch st2
      in case elseBranch of None \<Rightarrow> st3 | Some s \<Rightarrow> visitStatement s st3)"
| "visitStatement (WhileStatement condition body) st =
     (let (conditionType, st1) = checkExpression condition st;
          st2 = (if conditionType \<noteq> BOOL then reportError st1 ''While condition must be boolean''
                 else st1);
          wasInLoop = inLoop st2;
          st3 = visitStatement body (st2\<lparr>inLoop := True\<rparr>)
      in st3\<lparr>inLoop := wasInLoop\<rparr>)"
| "visitStatement (ReturnStatement val) st = visitReturnStatement val st"
| "visitStatement (ExpressionStatement expression) st = snd (checkExpression expression st)"
| "visitStatements [] st = st"
| "visitStatements (s # rest) st = visitStatements rest (visitStatement s st)"

text \<open>\<open>visitProgram\<close>, and \<open>analyze\<close> with the analyzer it leaves behind.\<close>

definition visitProgram :: "Program \<Rightarrow> SemanticAnalyzer \<Rightarrow> SemanticAnalyzer" where
  "visitProgram program st = visitStatements program st"

definition hasErrors :: "SemanticAnalyzer \<Rightarrow> bool" where
  "hasErrors st = (errors st \<noteq> [])"

definition analyze :: "Program \<Rightarrow> bool \<times> SemanticAnalyzer" where
  "analyze program =
     (let st = visitProgram program newSemanticAnalyzer in (\<not> hasErrors st, st))"

section \<open>Notions used to state the properties of the lexer\<close>

text \<open>An integer literal: a non-empty string of digits.\<close>

definition digits :: "string \<Rightarrow> bool" where
  "digits s = (s \<noteq> [] \<and> list_all isDigit s)"

text \<open>The texts after which a run of digits ends as an INTEGER token: the end of the
  source, or a character that is neither a digit nor a decimal point.\<close>

definition endsNumber :: "string \<Rightarrow> bool" where
  "endsNumber r = (case r of [] \<Rightarrow> True | c # _ \<Rightarrow> \<not> isDigit c \<and> c \<noteq> CHR ''.'')"

text \<open>The characters that \<open>readOperator\<close> turns into a one-character token when a
  space follows them.\<close>

definition plainOperator :: "char \<Rightarrow> bool" where
  "plainOperator c =
     (twoCharOperators [c, CHR '' ''] = None \<and> \<not> isWhitespace c \<and> \<not> isAlpha c \<and>
      \<not> isDigit c \<and> c \<noteq> dquote \<and> c \<noteq> CHR ''/'')"

text \<open>The operator characters of the levels \<open>term\<close> and \<open>factor\<close> that reach the
  parser as a token of their level, each with its operator. The character \<open>/\<close> is not
  among them: the lexer gives it the kind DIVIDE, for which \<open>parseFactor\<close> does not
  look.\<close>

definition additive :: "(char \<times> OperatorType) list" where
  "additive = [(CHR ''+'', ADD), (CHR ''-'', SUBTRACT)]"

definition multiplicative :: "(char \<times> OperatorType) list" where
  "multiplicative = [(CHR ''*'', MULTIPLY), (CHR ''%'', MODULO)]"

text \<open>The text after the decimal point, when a \<open>.\<close> directly follows the leading run
  of digits of \<open>r\<close>.\<close>

definition decimalPoint :: "string \<Rightarrow> string option" where
  "decimalPoint r =
     (case dropWhile isDigit r of
        [] \<Rightarrow> None
      | c # r2 \<Rightarrow> if c = CHR ''.'' then Some r2 else None)"

section \<open>The IR module (the builder interface of section 6.3 of the specification)\<close>

text \<open>Modelled from the spec: the lowerer builds its output through LLVM's \<open>Module\<close>,
  \<open>Function\<close>, \<open>BasicBlock\<close> and \<open>IRBuilder\<close>, a library outside the repository. The
  model keeps what section 6.3 of the specification asks of that interface: a module is
  a list of functions in the order of their creation, a function a list of basic blocks,
  a block a list of instructions; an instruction is appended at the insertion point, and
  is created without being inserted when the builder has no insertion point. A block or
  function is named by its position. The builder's folding of an operation on two
  constants into a constant is not modelled; it does not concern terminators.\<close>

datatype IRType = VoidTy | Int32Ty | DoubleTy | Int1Ty | Int8PtrTy | PointerTy

datatype Opcode =
    Add | FAdd | Sub | FSub | Mul | FMul | SDiv | FDiv
  | ICmpEQ | FCmpOEQ | ICmpNE | FCmpONE | ICmpSLT | FCmpOLT | ICmpSGT | FCmpOGT
  | Neg | FNeg | Not

text \<open>The number that \<open>std::stod\<close> reads from a text, before it is rounded to a
  \<open>double\<close>: \<open>FiniteFP negative m b e\<close> is the number \<open>m * b ^ e\<close> with its sign, for
  the base \<open>b\<close> 10 or 2; the rounding is not modelled.\<close>

datatype FloatConstant = FiniteFP bool int int int | InfinityFP bool | NaNFP

text \<open>Values. An instruction that yields a value carries a number, by which
  \<open>Register\<close> (and \<open>Slot\<close> for an \<open>alloca\<close>) refers to it.\<close>

datatype Value =
    ConstantInt IRType int
  | ConstantFP FloatConstant
  | GlobalString string
  | Argument nat nat IRType
  | Slot nat
  | Register nat IRType

fun typeOf :: "Value \<Rightarrow> IRType" where
  "typeOf (ConstantInt t v) = t"
| "typeOf (ConstantFP v) = DoubleTy"
| "typeOf (GlobalString v) = Int8PtrTy"
| "typeOf (Argument f i t) = t"
| "typeOf (Slot n) = PointerTy"
| "typeOf (Register n t) = t"

definition isIntegerTy :: "IRType \<Rightarrow> bool" where
  "isIntegerTy t = (t = Int32Ty \<or> t = Int1Ty)"

datatype Instruction =
    Alloca nat IRType string
  | Store Value Value
  | Load nat IRType Value
  | BinaryOperator Opcode nat Value Value
  | UnaryOperator Opcode nat Value
  | Call nat nat "Value list"
  | Br nat
  | CondBr Value nat nat
  | Ret Value
  | RetVoid

fun isTerminator :: "Instruction \<Rightarrow> bool" where
  "isTerminator (Br b) = True"
| "isTerminator (CondBr c t e) = True"
| "isTerminator (Ret v) = True"
| "isTerminator RetVoid = True"
| "isTerminator i = False"

record BasicBlock =
  blockName :: string
  instructions :: "Instruction list"

record IRFunction =
  functionName :: string
  returnTy :: IRType
  paramTys :: "IRType list"
  isVarArg :: bool
  blocks :: "BasicBlock list"

text \<open>\<open>BasicBlock::getTerminator\<close>: the last instruction of the block when that is a
  terminator, null otherwise.\<close>

definition getTerminator :: "BasicBlock \<Rightarrow> Instruction option" where
  "getTerminator b =
     (case rev (instructions b) of
        [] \<Rightarrow> None
      | i # _ \<Rightarrow> if isTerminator i then Some i else None)"

section \<open>The lowerer (src/CodeGen.cpp, class LLVMCodeGenerator)\<close>

text \<open>The members of \<open>LLVMCodeGenerator\<close>. \<open>insertPoint\<close> is the insertion block of
  \<open>builder_\<close>, as the pair of the function's and the block's positions; \<open>nextValue\<close>
  numbers the instructions that yield a value.\<close>

record LLVMCodeGenerator =
  moduleFunctions :: "IRFunction list"
  insertPoint :: "(nat \<times> nat) option"
  currentValue :: "Value option"
  currentFunction :: "nat option"
  variables :: "string \<rightharpoonup> Value"
  functionTable :: "string \<rightharpoonup> nat"
  breakTargets :: "(nat \<times> nat) list"
  continueTargets :: "(nat \<times> nat) list"
  hasErrorsCG :: bool
  errorsCG :: "string list"
  nextValue :: nat

text \<open>How lowering can stop: a call through the null insertion block of the builder
  (\<open>builder_.GetInsertBlock()->getParent()\<close> before any function exists), or an
  exception of the standard library, \<open>std::invalid_argument\<close> or \<open>std::out_of_range\<close>,
  kept with the name of the function that throws it. \<open>compileFile\<close> catches the
  exceptions and returns false.\<close>

datatype LowerAbort = NullDereference | InvalidArgument string | OutOfRange string

definition andThen :: "LowerAbort + 'a \<Rightarrow> ('a \<Rightarrow> LowerAbort + 'b) \<Rightarrow> LowerAbort + 'b" where
  "andThen r f = (case r of Inl e \<Rightarrow> Inl e | Inr x \<Rightarrow> f x)"

definition getLLVMType :: "DataType \<Rightarrow> IRType" where
  "getLLVMType t =
     (case t of
        VOID \<Rightarrow> VoidTy | INT' \<Rightarrow> Int32Ty | FLOAT \<Rightarrow> DoubleTy | BOOL \<Rightarrow> Int1Ty
      | STRING \<Rightarrow> Int8PtrTy | ARRAY \<Rightarrow> Int8PtrTy | FUNCTION \<Rightarrow> Int8PtrTy
      | UNKNOWN \<Rightarrow> Int32Ty)"

definition reportErrorCG :: "LLVMCodeGenerator \<Rightarrow> string \<Rightarrow> LLVMCodeGenerator" where
  "reportErrorCG st message = st\<lparr>hasErrorsCG := True, errorsCG := errorsCG st @ [message]\<rparr>"

definition declareVariable :: "LLVMCodeGenerator \<Rightarrow> string \<Rightarrow> Value \<Rightarrow> LLVMCodeGenerator" where
  "declareVariable st vname v = st\<lparr>variables := (variables st)(vname \<mapsto> v)\<rparr>"

definition getVariable :: "LLVMCodeGenerator \<Rightarrow> string \<Rightarrow> Value option" where
  "getVariable st vname = variables st vname"

text \<open>Appending to, and putting in front of, the instructions of block \<open>b\<close> of function
  \<open>f\<close> of the module.\<close>

definition updateBlock ::
  "nat \<Rightarrow> nat \<Rightarrow> (Instruction list \<Rightarrow> Instruction list) \<Rightarrow> IRFunction list \<Rightarrow> IRFunction list"
  where
  "updateBlock f b change m =
     (if f < length m \<and> b < length (blocks (m ! f))
      then m[f := (m ! f)\<lparr>blocks := (blocks (m ! f))
                    [b := (blocks (m ! f) ! b)
                       \<lparr>instructions := change (instructions (blocks (m ! f) ! b))\<rparr>]\<rparr>]
      else m)"

text \<open>An instruction created through \<open>builder_\<close>: appended to the insertion block, if
  there is one.\<close>

definition emit :: "LLVMCodeGenerator \<Rightarrow> Instruction \<Rightarrow> LLVMCodeGenerator" where
  "emit st i =
     (case insertPoint st of
        None \<Rightarrow> st
      | Some (f, b) \<Rightarrow>
          st\<lparr>moduleFunctions := updateBlock f b (\<lambda>ins. ins @ [i]) (moduleFunctions st)\<rparr>)"

text \<open>\<open>BasicBlock::Create(context_, name, func)\<close>: a new block at the end of function
  \<open>f\<close>; the result is the state and the position of the block.\<close>

definition createBlock ::
  "LLVMCodeGenerator \<Rightarrow> nat \<Rightarrow> string \<Rightarrow> LLVMCodeGenerator \<times> (nat \<times> nat)" where
  "createBlock st f bname =
     (let m = moduleFunctions st; fn = m ! f
      in (st\<lparr>moduleFunctions :=
               m[f := fn\<lparr>blocks := blocks fn @ [\<lparr>blockName = bname, instructions = []\<rparr>]\<rparr>]\<rparr>,
          (f, length (blocks fn))))"

text \<open>\<open>builder_.GetInsertBlock()->getTerminator()\<close>, on an insertion point that is
  set.\<close>

definition currentTerminator :: "LLVMCodeGenerator \<Rightarrow> (nat \<times> nat) \<Rightarrow> Instruction option" where
  "currentTerminator st p = getTerminator (blocks (moduleFunctions st ! fst p) ! snd p)"

text \<open>\<open>createAlloca\<close> dereferences the insertion block to find its function, and puts
  the \<open>alloca\<close> at the beginning of the entry block of that function.\<close>

definition createAlloca ::
  "LLVMCodeGenerator \<Rightarrow> IRType \<Rightarrow> string \<Rightarrow> LowerAbort + (Value \<times> LLVMCodeGenerator)" where
  "createAlloca st t aname =
     (case insertPoint st of
        None \<Rightarrow> Inl NullDereference
      | Some (f, b) \<Rightarrow>
          Inr (Slot (nextValue st),
               st\<lparr>moduleFunctions :=
                     updateBlock f 0 (\<lambda>ins. Alloca (nextValue st) t aname # ins) (moduleFunctions st),
                  nextValue := nextValue st + 1\<rparr>))"

text \<open>\<open>module_->getFunction(name)\<close>: the position of the first function of that
  name.\<close>

fun findFunction :: "IRFunction list \<Rightarrow> string \<Rightarrow> nat \<Rightarrow> nat option" where
  "findFunction [] n i = None"
| "findFunction (f # fs) n i = (if functionName f = n then Some i else findFunction fs n (i + 1))"

definition getFunction :: "LLVMCodeGenerator \<Rightarrow> string \<Rightarrow> nat option" where
  "getFunction st n = findFunction (moduleFunctions st) n 0"

text \<open>The conversions of the standard library that the literals go through,
  \<open>std::stoll\<close> and \<open>std::stod\<close>, as the C++ standard defines them through \<open>strtoll\<close>
  and \<open>strtod\<close> of the C standard. Both read the longest initial part of the text that
  has the expected form, after leading white space (\<open>std::isspace\<close>, the characters of
  \<open>isWhitespace\<close>) and an optional sign, and ignore the rest of the text; they throw
  \<open>std::invalid_argument\<close> when no such part exists and \<open>std::out_of_range\<close> when the
  number read is out of the range of the result type.\<close>

definition digitValue :: "char \<Rightarrow> int" where
  "digitValue c =
     (let n = of_char c :: int
      in if 48 \<le> n \<and> n \<le> 57 then n - 48
         else if 97 \<le> n \<and> n \<le> 102 then n - 87
         else if 65 \<le> n \<and> n \<le> 70 then n - 55
         else 0)"

definition numberValue :: "int \<Rightarrow> string \<Rightarrow> int" where
  "numberValue base s = foldl (\<lambda>n c. base * n + digitValue c) 0 s"

definition signOf :: "string \<Rightarrow> bool \<times> string" where
  "signOf s =
     (case s of
        [] \<Rightarrow> (False, s)
      | c # r \<Rightarrow> if c = CHR ''-'' then (True, r) else if c = CHR ''+'' then (False, r)
                 else (False, s))"

text \<open>\<open>std::stoll(value)\<close>, that is \<open>strtoll\<close> in base 10: a non-empty run of
  digits, with the range of \<open>long long\<close>.\<close>

definition stoll :: "string \<Rightarrow> LowerAbort + int" where
  "stoll s =
     (let (negative, r) = signOf (dropWhile isWhitespace s);
          ds = takeWhile isDigit r;
          v = (if negative then - numberValue 10 ds else numberValue 10 ds)
      in if ds = [] then Inl (InvalidArgument ''stoll'')
         else if v < - 9223372036854775808 \<or> 9223372036854775807 < v
           then Inl (OutOfRange ''stoll'')
         else Inr v)"

text \<open>\<open>std::stod(value)\<close>, that is \<open>strtod\<close>. The text read is \<open>inf\<close> or \<open>nan\<close> in
  either case of the letters, or a hexadecimal number after \<open>0x\<close>, or a decimal number:
  digits with at most one point and at least one digit, then an optional exponent, which
  is read only when it has a digit. \<open>exponentPart\<close> is the exponent after the marker
  \<open>e\<close> or \<open>p\<close>, and \<open>pointNumber\<close> the significand and the number of digits after the
  point.\<close>

definition toLower :: "char \<Rightarrow> char" where
  "toLower c =
     (let n = of_char c :: nat in if 65 \<le> n \<and> n \<le> 90 then char_of (n + 32) else c)"

definition isHexDigit :: "char \<Rightarrow> bool" where
  "isHexDigit c =
     (let n = of_char c :: nat
      in (48 \<le> n \<and> n \<le> 57) \<or> (97 \<le> n \<and> n \<le> 102) \<or> (65 \<le> n \<and> n \<le> 70))"

definition exponentPart :: "char \<Rightarrow> string \<Rightarrow> int" where
  "exponentPart marker s =
     (case s of
        [] \<Rightarrow> 0
      | c # r \<Rightarrow>
          if toLower c = marker
          then (let (negative, r2) = signOf r; ds = takeWhile isDigit r2
                in if negative then - numberValue 10 ds else numberValue 10 ds)
          else 0)"

definition pointNumber :: "(char \<Rightarrow> bool) \<Rightarrow> string \<Rightarrow> (string \<times> string \<times> string) option" where
  "pointNumber digit s =
     (let whole = takeWhile digit s; r = dropWhile digit s;
          (fraction, r2) =
            (case r of
               [] \<Rightarrow> ([], r)
             | c # r1 \<Rightarrow> if c = CHR ''.'' then (takeWhile digit r1, dropWhile digit r1)
                         else ([], r))
      in if whole = [] \<and> fraction = [] then None else Some (whole, fraction, r2))"

text \<open>The range error of \<open>strtod\<close> for the number \<open>m * b ^ e\<close>: the number rounds to
  infinity, being at least \<open>2 ^ 1024 - 2 ^ 970\<close>; or it is not zero, lies below the
  smallest normal \<open>double\<close> \<open>2 ^ -1022\<close> and is not a multiple of \<open>2 ^ -1074\<close>. The C
  standard leaves the second case to the implementation; the model follows the GNU C
  library, which reports a result below the normal range that is not exact.\<close>

definition outOfDoubleRange :: "int \<Rightarrow> int \<Rightarrow> int \<Rightarrow> bool" where
  "outOfDoubleRange m b e =
     (let num = m * (if 0 \<le> e then b ^ nat e else 1);
          den = (if e < 0 then b ^ nat (- e) else 1)
      in (2 ^ 1024 - 2 ^ 970) * den \<le> num
         \<or> (0 < m \<and> num * 2 ^ 1022 < den \<and> \<not> den dvd num * 2 ^ 1074))"

definition finiteDouble :: "bool \<Rightarrow> int \<Rightarrow> int \<Rightarrow> int \<Rightarrow> LowerAbort + FloatConstant" where
  "finiteDouble negative m b e =
     (if outOfDoubleRange m b e then Inl (OutOfRange ''stod'')
      else Inr (FiniteFP negative m b e))"

definition decimalDouble :: "bool \<Rightarrow> string \<Rightarrow> LowerAbort + FloatConstant" where
  "decimalDouble negative s =
     (case pointNumber isDigit s of
        None \<Rightarrow> Inl (InvalidArgument ''stod'')
      | Some (whole, fraction, r) \<Rightarrow>
          finiteDouble negative (numberValue 10 (whole @ fraction)) 10
            (exponentPart (CHR ''e'') r - int (length fraction)))"

definition stod :: "string \<Rightarrow> LowerAbort + FloatConstant" where
  "stod s =
     (let (negative, r) = signOf (dropWhile isWhitespace s)
      in if map toLower (take 3 r) = ''inf'' then Inr (InfinityFP negative)
         else if map toLower (take 3 r) = ''nan'' then Inr NaNFP
         else if map toLower (take 2 r) = ''0x''
         then (case pointNumber isHexDigit (drop 2 r) of
                 None \<Rightarrow> decimalDouble negative r
               | Some (whole, fraction, r2) \<Rightarrow>
                   finiteDouble negative (numberValue 16 (whole @ fraction)) 2
                     (exponentPart (CHR ''p'') r2 - 4 * int (length fraction)))
         else decimalDouble negative r)"

text \<open>An instruction that yields a value of type \<open>t\<close>: it takes the next number.\<close>

definition emitValue ::
  "LLVMCodeGenerator \<Rightarrow> (nat \<Rightarrow> Instruction) \<Rightarrow> IRType \<Rightarrow> Value \<times> LLVMCodeGenerator" where
  "emitValue st mk t =
     (Register (nextValue st) t, (emit st (mk (nextValue st)))\<lparr>nextValue := nextValue st + 1\<rparr>)"

text \<open>\<open>generateBinaryOperation\<close> and \<open>generateUnaryOperation\<close>: the opcode for the
  operator and the operand types, and the type of the result; \<open>None\<close> is the
  \<open>default\<close> branch, which reports an error and returns null.\<close>

definition binaryOpcode :: "OperatorType \<Rightarrow> bool \<Rightarrow> (Opcode \<times> bool) option" where
  "binaryOpcode op ints =
     (case op of
        ADD \<Rightarrow> Some (if ints then Add else FAdd, False)
      | SUBTRACT \<Rightarrow> Some (if ints then Sub else FSub, False)
      | MULTIPLY \<Rightarrow> Some (if ints then Mul else FMul, False)
      | DIVIDE \<Rightarrow> Some (if ints then SDiv else FDiv, False)
      | EQUAL \<Rightarrow> Some (if ints then ICmpEQ else FCmpOEQ, True)
      | NOT_EQUAL \<Rightarrow> Some (if ints then ICmpNE else FCmpONE, True)
      | LESS \<Rightarrow> Some (if ints then ICmpSLT else FCmpOLT, True)
      | GREATER \<Rightarrow> Some (if ints then ICmpSGT else FCmpOGT, True)
      | _ \<Rightarrow> None)"

definition generateBinaryOperation ::
  "LLVMCodeGenerator \<Rightarrow> Value \<Rightarrow> OperatorType \<Rightarrow> Value \<Rightarrow> Value option \<times> LLVMCodeGenerator"
  where
  "generateBinaryOperation st left op right =
     (case binaryOpcode op (isIntegerTy (typeOf left) \<and> isIntegerTy (typeOf right)) of
        None \<Rightarrow> (None, reportErrorCG st ''Unsupported binary operation'')
      | Some (opc, comparison) \<Rightarrow>
          (case emitValue st (\<lambda>n. BinaryOperator opc n left right)
                  (if comparison then Int1Ty else typeOf left) of
             (v, st') \<Rightarrow> (Some v, st')))"

definition generateUnaryOperation ::
  "LLVMCodeGenerator \<Rightarrow> OperatorType \<Rightarrow> Value \<Rightarrow> Value option \<times> LLVMCodeGenerator" where
  "generateUnaryOperation st op operand =
     (if op = SUBTRACT
      then (case emitValue st
                   (\<lambda>n. UnaryOperator (if isIntegerTy (typeOf operand) then Neg else FNeg) n operand)
                   (typeOf operand) of
              (v, st') \<Rightarrow> (Some v, st'))
      else if op = NOT
      then (case emitValue st (\<lambda>n. UnaryOperator Not n operand) (typeOf operand) of
              (v, st') \<Rightarrow> (Some v, st'))
      else (None, reportErrorCG st ''Unsupported unary operation''))"

text \<open>The expression visitors; \<open>generateExpression\<close> is the visit followed by a read
  of \<open>currentValue_\<close>, which a visit that reports an error leaves as it was.
  \<open>generateArguments\<close> is the loop of \<open>visitFunctionCallExpression\<close>; its flag says
  that the loop left through \<open>return\<close>.\<close>

fun visitExpressionCG :: "Expression \<Rightarrow> LLVMCodeGenerator \<Rightarrow> LowerAbort + LLVMCodeGenerator"
  and generateArguments ::
    "Expression list \<Rightarrow> Value list \<Rightarrow> LLVMCodeGenerator \<Rightarrow>
     LowerAbort + (bool \<times> Value list \<times> LLVMCodeGenerator)"
where
  "visitExpressionCG (LiteralExpression v t) st =
     (if t = INT' then andThen (stoll v) (\<lambda>n.
        Inr (st\<lparr>currentValue := Some (ConstantInt Int32Ty (n mod 2 ^ 32))\<rparr>))
      else if t = FLOAT then andThen (stod v) (\<lambda>x.
        Inr (st\<lparr>currentValue := Some (ConstantFP x)\<rparr>))
      else if t = BOOL
        then Inr (st\<lparr>currentValue := Some (ConstantInt Int1Ty (if v = ''true'' then 1 else 0))\<rparr>)
      else if t = STRING
        then (case insertPoint st of
                None \<Rightarrow> Inl NullDereference
              | Some p \<Rightarrow> Inr (st\<lparr>currentValue := Some (GlobalString v)\<rparr>))
      else Inr (reportErrorCG st ''Unsupported literal type''))"
| "visitExpressionCG (VariableExpression vname) st =
     (case getVariable st vname of
        None \<Rightarrow> Inr (reportErrorCG st (''Undefined variable: '' @ vname))
      | Some var \<Rightarrow>
          (case emitValue st (\<lambda>n. Load n (getLLVMType UNKNOWN) var) (getLLVMType UNKNOWN) of
             (v, st') \<Rightarrow> Inr (st'\<lparr>currentValue := Some v\<rparr>)))"
| "visitExpressionCG (BinaryExpression left op right) st =
     andThen (visitExpressionCG left st) (\<lambda>st1.
     andThen (visitExpressionCG right st1) (\<lambda>st2.
       case (currentValue st1, currentValue st2) of
         (Some l, Some r) \<Rightarrow>
           (case generateBinaryOperation st2 l op r of
              (v, st3) \<Rightarrow> Inr (st3\<lparr>currentValue := v\<rparr>))
       | _ \<Rightarrow> Inr (reportErrorCG st2 ''Failed to generate operands for binary expression'')))"
| "visitExpressionCG (UnaryExpression op operand) st =
     andThen (visitExpressionCG operand st) (\<lambda>st1.
       case currentValue st1 of
         None \<Rightarrow> Inr (reportErrorCG st1 ''Failed to generate operand for unary expression'')
       | Some v \<Rightarrow>
           (case generateUnaryOperation st1 op v of
              (r, st2) \<Rightarrow> Inr (st2\<lparr>currentValue := r\<rparr>)))"
| "visitExpressionCG (AssignmentExpression vname val) st =
     andThen (visitExpressionCG val st) (\<lambda>st1.
       case currentValue st1 of
         None \<Rightarrow> Inr (reportErrorCG st1 ''Failed to generate value for assignment'')
       | Some v \<Rightarrow>
           (case getVariable st1 vname of
              None \<Rightarrow> Inr (reportErrorCG st1 (''Undefined variable: '' @ vname))
            | Some var \<Rightarrow> Inr ((emit st1 (Store v var))\<lparr>currentValue := Some v\<rparr>)))"
| "visitExpressionCG (FunctionCallExpression fname arguments) st =
     (case getFunction st fname of
        None \<Rightarrow> Inr (reportErrorCG st (''Undefined function: '' @ fname))
      | Some func \<Rightarrow>
          andThen (generateArguments arguments [] st) (\<lambda>(returned, args, st1).
            if returned then Inr st1
            else (case emitValue st1 (\<lambda>n. Call n func args)
                         (returnTy (moduleFunctions st1 ! func)) of
                    (v, st2) \<Rightarrow> Inr (st2\<lparr>currentValue := Some v\<rparr>))))"
| "generateArguments [] args st = Inr (False, args, st)"
| "generateArguments (arg # rest) args st =
     andThen (visitExpressionCG arg st) (\<lambda>st1.
       case currentValue st1 of
         None \<Rightarrow> Inr (True, args, reportErrorCG st1 ''Failed to generate function argument'')
       | Some v \<Rightarrow> generateArguments rest (args @ [v]) st1)"

definition generateExpression ::
  "Expression \<Rightarrow> LLVMCodeGenerator \<Rightarrow> LowerAbort + (Value option \<times> LLVMCodeGenerator)" where
  "generateExpression e st = andThen (visitExpressionCG e st) (\<lambda>st1. Inr (currentValue st1, st1))"

text \<open>The first part of \<open>visitFunctionDeclaration\<close>, up to the visit of the body: the
  function is created in the module and entered in \<open>functions_\<close>, its entry block
  becomes the insertion point, and every parameter gets a slot, a store of the formal
  argument and an entry in \<open>variables_\<close>. \<open>parameterSlots\<close> is the loop over the
  arguments, with its index \<open>i\<close>.\<close>

fun parameterSlots ::
  "nat \<Rightarrow> (string \<times> DataType) list \<Rightarrow> nat \<Rightarrow> LLVMCodeGenerator \<Rightarrow> LowerAbort + LLVMCodeGenerator"
  where
  "parameterSlots f [] i st = Inr st"
| "parameterSlots f ((pname, ptype) # rest) i st =
     andThen (createAlloca st (getLLVMType ptype) pname) (\<lambda>(paramVar, st1).
       parameterSlots f rest (i + 1)
         (declareVariable (emit st1 (Store (Argument f i (getLLVMType ptype)) paramVar))
            pname paramVar))"

definition functionPrologue ::
  "string \<Rightarrow> DataType \<Rightarrow> (string \<times> DataType) list \<Rightarrow> LLVMCodeGenerator \<Rightarrow>
   LowerAbort + LLVMCodeGenerator" where
  "functionPrologue fname rtype parameters st =
     (let f = length (moduleFunctions st);
          func = \<lparr>functionName = fname, returnTy = getLLVMType rtype,
                  paramTys = map (\<lambda>p. getLLVMType (snd p)) parameters, isVarArg = False,
                  blocks = [\<lparr>blockName = ''entry'', instructions = []\<rparr>]\<rparr>;
          st1 = st\<lparr>moduleFunctions := moduleFunctions st @ [func],
                   functionTable := (functionTable st)(fname \<mapsto> f),
                   insertPoint := Some (f, 0)\<rparr>
      in andThen (parameterSlots f parameters 0 st1) (\<lambda>st2.
           Inr (st2\<lparr>currentFunction := Some f\<rparr>)))"

text \<open>The last part of \<open>visitFunctionDeclaration\<close>, after the visit of the body.
  \<open>verifyFunction\<close> only prints.\<close>

definition functionEpilogue :: "DataType \<Rightarrow> LLVMCodeGenerator \<Rightarrow> LowerAbort + LLVMCodeGenerator"
  where
  "functionEpilogue rtype st =
     (let st1 = st\<lparr>currentFunction := None\<rparr>
      in if rtype = VOID
         then (case insertPoint st1 of
                 None \<Rightarrow> Inl NullDereference
               | Some p \<Rightarrow>
                   if currentTerminator st1 p = None then Inr (emit st1 RetVoid) else Inr st1)
         else Inr st1)"

text \<open>\<open>if (!builder_.GetInsertBlock()->getTerminator()) builder_.CreateBr(target);\<close>\<close>

definition branchIfOpen ::
  "LLVMCodeGenerator \<Rightarrow> (nat \<times> nat) \<Rightarrow> LowerAbort + LLVMCodeGenerator" where
  "branchIfOpen st target =
     (case insertPoint st of
        None \<Rightarrow> Inl NullDereference
      | Some p \<Rightarrow>
          if currentTerminator st p = None then Inr (emit st (Br (snd target))) else Inr st)"

definition visitReturnStatementCG ::
  "Expression option \<Rightarrow> LLVMCodeGenerator \<Rightarrow> LowerAbort + LLVMCodeGenerator" where
  "visitReturnStatementCG val st =
     (case val of
        Some e \<Rightarrow>
          andThen (generateExpression e st) (\<lambda>(returnValue, st1).
            case returnValue of
              None \<Rightarrow> Inr st1
            | Some r \<Rightarrow> Inr (emit st1 (Ret r)))
      | None \<Rightarrow> Inr (emit st RetVoid))"

definition visitVariableDeclarationCG ::
  "string \<Rightarrow> DataType \<Rightarrow> Expression option \<Rightarrow> LLVMCodeGenerator \<Rightarrow>
   LowerAbort + LLVMCodeGenerator" where
  "visitVariableDeclarationCG vname vtype initializer st =
     andThen (createAlloca st (getLLVMType vtype) vname) (\<lambda>(var, st1).
       let st2 = declareVariable st1 vname var
       in case initializer of
            None \<Rightarrow> Inr st2
          | Some e \<Rightarrow>
              andThen (generateExpression e st2) (\<lambda>(initValue, st3).
                case initValue of
                  None \<Rightarrow> Inr st3
                | Some v \<Rightarrow> Inr (emit st3 (Store v var))))"

text \<open>The statement visitors. A branch instruction names its target block by the
  position of the block in the function that was current when the block was
  created.\<close>

fun visitStatementCG :: "Statement \<Rightarrow> LLVMCodeGenerator \<Rightarrow> LowerAbort + LLVMCodeGenerator"
  and generateBlock :: "Statement list \<Rightarrow> LLVMCodeGenerator \<Rightarrow> LowerAbort + LLVMCodeGenerator"
where
  "visitStatementCG (BlockStatement statements) st = generateBlock statements st"
| "visitStatementCG (VariableDeclaration vname vtype initializer) st =
     visitVariableDeclarationCG vname vtype initializer st"
| "visitStatementCG (FunctionDeclaration fname rtype parameters body) st =
     andThen (functionPrologue fname rtype parameters st) (\<lambda>st1.
     andThen (visitStatementCG body st1) (\<lambda>st2.
       functionEpilogue rtype st2))"
| "visitStatementCG (IfStatement condition thenBranch elseBranch) st =
     andThen (generateExpression condition st) (\<lambda>(cond, st1).
       case cond of
         None \<Rightarrow> Inr (reportErrorCG st1 ''Failed to generate if condition'')
       | Some c \<Rightarrow>
           (case insertPoint st1 of
              None \<Rightarrow> Inl NullDereference
            | Some (f, b) \<Rightarrow>
                (let (st2, thenBB) = createBlock st1 f ''then'';
                     (st3, elseBB) = createBlock st2 f ''else'';
                     (st4, mergeBB) = createBlock st3 f ''ifcont'';
                     st5 = emit st4 (CondBr c (snd thenBB) (snd elseBB))
                 in andThen (visitStatementCG thenBranch (st5\<lparr>insertPoint := Some thenBB\<rparr>))
                      (\<lambda>st6.
                    andThen (branchIfOpen st6 mergeBB) (\<lambda>st7.
                    andThen (case elseBranch of
                               None \<Rightarrow> Inr (st7\<lparr>insertPoint := Some elseBB\<rparr>)
                             | Some s \<Rightarrow> visitStatementCG s (st7\<lparr>insertPoint := Some elseBB\<rparr>))
                      (\<lambda>st8.
                    andThen (branchIfOpen st8 mergeBB) (\<lambda>st9.
                      Inr (st9\<lparr>insertPoint := Some mergeBB\<rparr>))))))))"
| "visitStatementCG (WhileStatement condition body) st =
     (case insertPoint st of
        None \<Rightarrow> Inl NullDereference
      | Some (f, b) \<Rightarrow>
          (let (st1, loopBB) = createBlock st f ''loop'';
               (st2, bodyBB) = createBlock st1 f ''while_body'';
               (st3, afterBB) = createBlock st2 f ''while_cont'';
               st4 = st3\<lparr>breakTargets := breakTargets st3 @ [afterBB],
                        continueTargets := continueTargets st3 @ [loopBB]\<rparr>;
               st5 = (emit st4 (Br (snd loopBB)))\<lparr>insertPoint := Some loopBB\<rparr>
           in andThen (generateExpression condition st5) (\<lambda>(cond, st6).
                case cond of
                  None \<Rightarrow> Inr (reportErrorCG st6 ''Failed to generate while condition'')
                | Some c \<Rightarrow>
                    andThen (visitStatementCG body
                               ((emit st6 (CondBr c (snd bodyBB) (snd afterBB)))
                                  \<lparr>insertPoint := Some bodyBB\<rparr>)) (\<lambda>st7.
                    andThen (branchIfOpen st7 loopBB) (\<lambda>st8.
                      Inr (st8\<lparr>insertPoint := Some afterBB,
                               breakTargets := butlast (breakTargets st8),
                               continueTargets := butlast (continueTargets st8)\<rparr>))))))"
| "visitStatementCG (ReturnStatement val) st = visitReturnStatementCG val st"
| "visitStatementCG (ExpressionStatement expression) st =
     andThen (generateExpression expression st) (\<lambda>(v, st1). Inr st1)"
| "generateBlock [] st = Inr st"
| "generateBlock (s # rest) st =
     andThen (visitStatementCG s st) (\<lambda>st1. generateBlock rest st1)"

text \<open>The constructor, with the declaration of \<open>printf\<close> that
  \<open>createBuiltinFunctions\<close> puts into the module, and \<open>generate\<close>.\<close>

definition newCodeGenerator :: LLVMCodeGenerator where
  "newCodeGenerator =
     \<lparr>moduleFunctions =
        [\<lparr>functionName = ''printf'', returnTy = Int32Ty, paramTys = [Int8PtrTy],
          isVarArg = True, blocks = []\<rparr>],
      insertPoint = None, currentValue = None, currentFunction = None,
      variables = Map.empty, functionTable = Map.empty,
      breakTargets = [], continueTargets = [],
      hasErrorsCG = False, errorsCG = [], nextValue = 0\<rparr>"

definition generate :: "Program \<Rightarrow> LowerAbort + (bool \<times> LLVMCodeGenerator)" where
  "generate program =
     andThen (generateBlock program newCodeGenerator) (\<lambda>st. Inr (\<not> hasErrorsCG st, st))"

section \<open>The pipeline (src/main.cpp, compileFile)\<close>

text \<open>\<open>compileFile\<close> from the source text on, without the reading and writing of
  files, the logging and the option \<open>-E\<close>: the first ERROR token, the exception that left
  the parser, the diagnostics of the analyzer, or what the lowerer returned.\<close>

datatype CompileResult =
    LexicalError string
  | CompilationError ParseAbort
  | SemanticFailed "string list"
  | LoweringAborted LowerAbort
  | CodeGenerationFailed "string list"
  | Compiled "IRFunction list"

definition compileFile :: "string \<Rightarrow> CompileResult" where
  "compileFile source =
     (let toks = tokenize source
      in case filter (\<lambda>t. tokenType t = TK_ERROR) toks of
           t # _ \<Rightarrow> LexicalError (tokenValue t)
         | [] \<Rightarrow>
             (case parse toks of
                Inl e \<Rightarrow> CompilationError e
              | Inr ast \<Rightarrow>
                  (case analyze ast of
                     (False, analyzer) \<Rightarrow> SemanticFailed (errors analyzer)
                   | (True, analyzer) \<Rightarrow>
                       (case generate ast of
                          Inl e \<Rightarrow> LoweringAborted e
                        | Inr (False, codegen) \<Rightarrow> CodeGenerationFailed (errorsCG codegen)
                        | Inr (True, codegen) \<Rightarrow> Compiled (moduleFunctions codegen)))))"

section \<open>Notions used to state the properties of the lowerer\<close>

text \<open>A basic block that ends with exactly one terminator and has no instruction after
  a terminator: its last instruction is a terminator and no earlier one is. A module
  in which every block of every function is such a block.\<close>

definition wellTerminated :: "BasicBlock \<Rightarrow> bool" where
  "wellTerminated b =
     (case rev (instructions b) of
        [] \<Rightarrow> False
      | i # before \<Rightarrow> isTerminator i \<and> list_all (\<lambda>j. \<not> isTerminator j) before)"

definition moduleWellTerminated :: "IRFunction list \<Rightarrow> bool" where
  "moduleWellTerminated m = list_all (\<lambda>f. list_all wellTerminated (blocks f)) m"

text \<open>The names that the statements of a piece of syntax declare: those of its variable
  declarations and of the parameters of its function declarations, at any depth. These
  are the names for which the lowering of the piece can call \<open>declareVariable\<close>.\<close>

fun declaredNames :: "Statement \<Rightarrow> string list"
  and declaredNamesOf :: "Statement list \<Rightarrow> string list"
where
  "declaredNames (BlockStatement statements) = declaredNamesOf statements"
| "declaredNames (VariableDeclaration vname vtype initializer) = [vname]"
| "declaredNames (FunctionDeclaration fname rtype parameters body) =
     map fst parameters @ declaredNames body"
| "declaredNames (IfStatement condition thenBranch elseBranch) =
     declaredNames thenBranch @ (case elseBranch of None \<Rightarrow> [] | Some s \<Rightarrow> declaredNames s)"
| "declaredNames (WhileStatement condition body) = declaredNames body"
| "declaredNames (ReturnStatement val) = []"
| "declaredNames (ExpressionStatement expression) = []"
| "declaredNamesOf [] = []"
| "declaredNamesOf (s # rest) = declaredNames s @ declaredNamesOf rest"

text \<open>The slots that the loop over the parameters in \<open>visitFunctionDeclaration\<close>
  allocates, each with the name of its parameter, when \<open>n\<close> is the number of the next
  value: one slot for each parameter, in their order.\<close>

definition parameterBindings :: "nat \<Rightarrow> (string \<times> DataType) list \<Rightarrow> (string \<times> Value) list" where
  "parameterBindings n parameters = zip (map fst parameters) (map Slot [n ..< n + length parameters])"


section \<open>Notions used to state the properties of the analyzer\<close>

text \<open>The visits of return statements. \<open>traceStatement\<close> is \<open>visitStatement\<close> with a
  second result: the return statements that the visit comes to, in the order of their
  visits, each with its position in the syntax tree, its value, and the analyzer on
  which \<open>visitReturnStatement\<close> is called for it. The position is given by the
  function declaration that encloses the statement: the declared return type of the
  innermost function declaration whose body holds the statement, \<open>None\<close> when there is
  no such declaration. It is passed down the syntax tree and never read from the
  analyzer. \<open>returnSites\<close> is the list for the analysis of a program by a new
  analyzer.\<close>

type_synonym ReturnSite = "DataType option \<times> Expression option \<times> SemanticAnalyzer"

fun traceStatement ::
    "DataType option \<Rightarrow> Statement \<Rightarrow> SemanticAnalyzer \<Rightarrow> ReturnSite list \<times> SemanticAnalyzer"
  and traceStatements ::
    "DataType option \<Rightarrow> Statement list \<Rightarrow> SemanticAnalyzer \<Rightarrow> ReturnSite list \<times> SemanticAnalyzer"
where
  "traceStatement enclosing (BlockStatement statements) st =
     (let st1 = st\<lparr>symbolTable := enterScope (symbolTable st)\<rparr>;
          (sites, st2) = traceStatements enclosing statements st1
      in (sites, st2\<lparr>symbolTable := exitScope (symbolTable st2)\<rparr>))"
| "traceStatement enclosing (VariableDeclaration vname vtype initializer) st =
     ([], visitVariableDeclaration vname vtype initializer st)"
| "traceStatement enclosing (FunctionDeclaration fname rtype parameters body) st =
     (let symbol = (mkSymbol fname rtype True)
                     \<lparr>parameterTypes := map snd parameters, returnType := Some rtype\<rparr>;
          (inserted, table) = insert_sym (symbolTable st) fname symbol
      in if \<not> inserted then ([], reportError st (''Function already declared: '' @ fname))
         else
           (let st1 = st\<lparr>symbolTable := enterScope table\<rparr>;
                wasInFunction = inFunction st1;
                wasReturnType = currentFunctionReturnType st1;
                st2 = st1\<lparr>inFunction := True, currentFunctionReturnType := rtype\<rparr>;
                st3 = st2\<lparr>symbolTable := insertParameters parameters (symbolTable st2)\<rparr>;
                (sites, st4) = traceStatement (Some rtype) body st3;
                st5 = st4\<lparr>inFunction := wasInFunction,
                          currentFunctionReturnType := wasReturnType\<rparr>
            in (sites, st5\<lparr>symbolTable := exitScope (symbolTable st5)\<rparr>)))"
| "traceStatement enclosing (IfStatement condition thenBranch elseBranch) st =
     (let (conditionType, st1) = checkExpression condition st;
          st2 = (if conditionType \<noteq> BOOL then reportError st1 ''If condition must be boolean''
                 else st1);
          (sites, st3) = traceStatement enclosing thenBranch st2
      in case elseBranch of
           None \<Rightarrow> (sites, st3)
         | Some s \<Rightarrow>
             (let (sites', st4) = traceStatement enclosing s st3 in (sites @ sites', st4)))"
| "traceStatement enclosing (WhileStatement condition body) st =
     (let (conditionType, st1) = checkExpression condition st;
          st2 = (if conditionType \<noteq> BOOL then reportError st1 ''While condition must be boolean''
                 else st1);
          wasInLoop = inLoop st2;
          (sites, st3) = traceStatement enclosing body (st2\<lparr>inLoop := True\<rparr>)
      in (sites, st3\<lparr>inLoop := wasInLoop\<rparr>))"
| "traceStatement enclosing (ReturnStatement val) st =
     ([(enclosing, val, st)], visitReturnStatement val st)"
| "traceStatement enclosing (ExpressionStatement expression) st =
     ([], snd (checkExpression expression st))"
| "traceStatements enclosing [] st = ([], st)"
| "traceStatements enclosing (s # rest) st =
     (let (sites, st1) = traceStatement enclosing s st;
          (sites', st2) = traceStatements enclosing rest st1
      in (sites @ sites', st2))"


text \<open>What the analyzer itself holds about the enclosing function, in \<open>inFunction_\<close>
  and \<open>currentFunctionReturnType_\<close>.\<close>

definition enclosingFunction :: "SemanticAnalyzer \<Rightarrow> DataType option" where
  "enclosingFunction st = (if inFunction st then Some (currentFunctionReturnType st) else None)"



section \<open>Round trip of the escape helpers\<close>

lemma unescape_plain:
  "c \<noteq> backslash \<Longrightarrow> unescapeString (c # cs) = c # unescapeString cs"
  by (cases cs) simp_all

lemma unescape_escapeChar:
  "unescapeString (escapeChar c @ cs) = c # unescapeString cs"
  by (simp add: escapeChar_def unescapeChar_def unescape_plain)

text \<open>Claim C10. For every string \<open>s\<close>, \<open>unescapeString (escapeString s) = s\<close>: the
  two helpers form a round trip.\<close>

theorem escape_round_trip: "unescapeString (escapeString s) = s"
  by (induction s) (simp_all add: unescape_escapeChar)

section \<open>Scope round trip of the symbol table\<close>

lemma runOps_take:
  "balancedFrom d ops \<Longrightarrow> d < length t \<Longrightarrow> runOps ops t = take (length t - d) t"
proof (induction ops arbitrary: d t)
  case Nil
  then show ?case by simp
next
  case (Cons x xs)
  show ?case
  proof (cases x)
    case Enter
    with Cons.prems have b: "balancedFrom (Suc d) xs" by simp
    have "runOps xs (t @ [Map.empty]) = take (length (t @ [Map.empty]) - Suc d) (t @ [Map.empty])"
      using Cons.IH [OF b, of "t @ [Map.empty]"] Cons.prems(2) by simp
    then show ?thesis using Enter by (simp add: enterScope_def)
  next
    case Exit
    with Cons.prems have d: "d > 0" and b: "balancedFrom (d - 1) xs" by simp_all
    from d Cons.prems(2) have l: "length t > 1" by simp
    have "runOps xs (butlast t) = take (length (butlast t) - (d - 1)) (butlast t)"
      using Cons.IH [OF b, of "butlast t"] Cons.prems(2) d by simp
    moreover have "take (length (butlast t) - (d - 1)) (butlast t) = take (length t - d) t"
      using d Cons.prems(2) by (simp add: butlast_conv_take min_def)
    ultimately show ?thesis using Exit l by (simp add: exitScope_def)
  qed
qed

lemma lookupRev_empty: "\<forall>sc \<in> set scs. sc = Map.empty \<Longrightarrow> lookupRev scs n = None"
  by (induction scs) simp_all

lemma applyOp_all_empty:
  "\<forall>sc \<in> set t. sc = Map.empty \<Longrightarrow> \<forall>sc \<in> set (applyOp x t). sc = Map.empty"
  by (cases x) (auto simp: enterScope_def exitScope_def dest: in_set_butlastD)

lemma runOps_all_empty:
  "\<forall>sc \<in> set t. sc = Map.empty \<Longrightarrow> \<forall>sc \<in> set (runOps ops t). sc = Map.empty"
proof (induction ops arbitrary: t)
  case Nil
  then show ?case by simp
next
  case (Cons x xs)
  from applyOp_all_empty [OF Cons.prems]
  have "\<forall>sc \<in> set (applyOp x t). sc = Map.empty" .
  from Cons.IH [OF this] show ?case by simp
qed

text \<open>On a table with at least one scope (every table the class can hold) a balanced
  sequence gives back the very same vector of scopes.\<close>

lemma runOps_balanced_id: "balanced ops \<Longrightarrow> t \<noteq> [] \<Longrightarrow> runOps ops t = t"
  using runOps_take [of 0 ops t] by (simp add: balanced_def)

lemma lookup_balanced: "balanced ops \<Longrightarrow> lookup (runOps ops t) n = lookup t n"
proof (cases t)
  case Nil
  have "\<forall>sc \<in> set (runOps ops []). sc = Map.empty"
    by (rule runOps_all_empty) simp
  hence "lookupRev (rev (runOps ops [])) n = None"
    by (intro lookupRev_empty) simp
  thus ?thesis using Nil by (simp add: lookup_def)
next
  case (Cons a as)
  assume "balanced ops"
  thus ?thesis using Cons by (simp add: runOps_balanced_id)
qed

text \<open>Claim C9. Starting from any table state, after any balanced sequence of
  \<open>enterScope\<close>/\<open>exitScope\<close> calls the set of symbols visible through \<open>lookup\<close> is the
  set that was visible before the sequence.\<close>

theorem scope_round_trip: "balanced ops \<Longrightarrow> visible (runOps ops t) = visible t"
  by (simp add: visible_def lookup_balanced)

theorem scope_round_trip_witness:
  "balanced [Enter, Enter, Exit, Enter, Exit, Exit] \<and>
   visible (runOps [Enter, Enter, Exit, Enter, Exit, Exit]
              [[''x'' \<mapsto> mkSymbol ''x'' INT' False], [''y'' \<mapsto> mkSymbol ''y'' BOOL False]])
   = visible [[''x'' \<mapsto> mkSymbol ''x'' INT' False], [''y'' \<mapsto> mkSymbol ''y'' BOOL False]]"
  using scope_round_trip [of "[Enter, Enter, Exit, Enter, Exit, Exit]"
      "[[''x'' \<mapsto> mkSymbol ''x'' INT' False], [''y'' \<mapsto> mkSymbol ''y'' BOOL False]]"]
  by (simp add: balanced_def)

section \<open>Properties of the lexer\<close>

lemma digit_facts:
  assumes "isDigit c"
  shows "\<not> isWhitespace c" "\<not> isAlpha c" "c \<noteq> CHR ''/''" "c \<noteq> CHR ''.''" "c \<noteq> dquote"
  using assms by (auto simp: isDigit_def isWhitespace_def isAlpha_def Let_def)

lemma numberLoop_digits:
  "list_all isDigit ds \<Longrightarrow> endsNumber r \<Longrightarrow>
   numberLoop \<lparr>scanned = s, remaining = ds @ r\<rparr> False = (\<lparr>scanned = s @ ds, remaining = r\<rparr>, False)"
proof (induction ds arbitrary: s)
  case Nil
  then show ?case
    by (subst numberLoop.simps) (auto simp: endsNumber_def isAtEnd_def peek_def split: list.splits)
next
  case (Cons d ds)
  from Cons.prems have d: "isDigit d" and ds: "list_all isDigit ds" by simp_all
  have "numberLoop \<lparr>scanned = s, remaining = (d # ds) @ r\<rparr> False
      = numberLoop \<lparr>scanned = s @ [d], remaining = ds @ r\<rparr> False"
    using d digit_facts(4) [OF d]
    by (subst numberLoop.simps) (simp add: isAtEnd_def peek_def advance_def)
  also have "\<dots> = (\<lparr>scanned = (s @ [d]) @ ds, remaining = r\<rparr>, False)"
    by (rule Cons.IH [OF ds Cons.prems(2)])
  finally show ?case by simp
qed

lemma nextToken_space:
  "nextToken \<lparr>scanned = s, remaining = CHR '' '' # x\<rparr> = nextToken \<lparr>scanned = s @ '' '', remaining = x\<rparr>"
proof -
  have "skipWhitespace \<lparr>scanned = s, remaining = CHR '' '' # x\<rparr>
      = skipWhitespace \<lparr>scanned = s @ '' '', remaining = x\<rparr>"
    by (subst skipWhitespace.simps) (simp add: isAtEnd_def peek_def advance_def isWhitespace_def)
  then show ?thesis
    by (subst nextToken.simps, subst (2) nextToken.simps) simp
qed

lemma nextToken_integer:
  assumes "digits a" "endsNumber r"
  shows "nextToken \<lparr>scanned = s, remaining = a @ r\<rparr>
       = (Some (Token TK_INTEGER a), \<lparr>scanned = a, remaining = r\<rparr>)"
proof -
  from assms(1) obtain d ds where a: "a = d # ds" and d: "isDigit d" and ds: "list_all isDigit ds"
    by (cases a) (auto simp: digits_def)
  have sk: "skipWhitespace \<lparr>scanned = s, remaining = d # ds @ r\<rparr>
      = \<lparr>scanned = s, remaining = d # ds @ r\<rparr>"
    using digit_facts(1) [OF d] by (subst skipWhitespace.simps) (simp add: peek_def)
  have nl: "numberLoop \<lparr>scanned = [d], remaining = ds @ r\<rparr> False = (\<lparr>scanned = [d] @ ds, remaining = r\<rparr>, False)"
    by (rule numberLoop_digits [OF ds assms(2)])
  show ?thesis
    using d digit_facts [OF d] nl
    by (subst nextToken.simps)
       (simp add: sk a Let_def isAtEnd_def markStart_def peek_def advance_def readNumber_def)
qed

lemma nextToken_single:
  assumes "twoCharOperators [c, CHR '' ''] = None" "\<not> isWhitespace c" "\<not> isAlpha c" "\<not> isDigit c"
    "c \<noteq> dquote" "c \<noteq> CHR ''/''"
  shows "nextToken \<lparr>scanned = s, remaining = c # CHR '' '' # x\<rparr>
       = (Some (singleCharToken c), \<lparr>scanned = [c], remaining = CHR '' '' # x\<rparr>)"
proof -
  have sk: "skipWhitespace \<lparr>scanned = s, remaining = c # CHR '' '' # x\<rparr> = \<lparr>scanned = s, remaining = c # CHR '' '' # x\<rparr>"
    using assms(2) by (subst skipWhitespace.simps) (simp add: peek_def)
  show ?thesis
    using assms
    by (subst nextToken.simps)
       (simp add: sk Let_def isAtEnd_def markStart_def peek_def advance_def readOperator_def)
qed

lemma nextToken_semicolon_end:
  "nextToken \<lparr>scanned = s, remaining = '';''\<rparr>
       = (Some (Token TK_SEMICOLON '';''), \<lparr>scanned = '';'', remaining = []\<rparr>)"
proof -
  have sk: "skipWhitespace \<lparr>scanned = s, remaining = '';''\<rparr> = \<lparr>scanned = s, remaining = '';''\<rparr>"
    by (subst skipWhitespace.simps) (simp add: peek_def isWhitespace_def)
  show ?thesis
    by (subst nextToken.simps)
       (simp add: sk Let_def isAtEnd_def markStart_def peek_def advance_def readOperator_def
          isAlpha_def isDigit_def singleCharToken_def)
qed

lemma tokenizeLoop_step:
  "nextToken \<lparr>scanned = [], remaining = c # x\<rparr> = (Some t, L') \<Longrightarrow>
   tokenizeLoop \<lparr>scanned = s, remaining = c # x\<rparr> acc = tokenizeLoop L' (acc @ [t])"
  by (subst tokenizeLoop.simps) (simp add: isAtEnd_def markStart_def)

lemma tokenizeLoop_end:
  "tokenizeLoop \<lparr>scanned = s, remaining = []\<rparr> acc = acc @ [Token TK_END_OF_FILE []]"
  by (subst tokenizeLoop.simps) (simp add: isAtEnd_def)

lemma decimalPoint_simps:
  "decimalPoint [] = None"
  "isDigit c \<Longrightarrow> decimalPoint (c # r) = decimalPoint r"
  "decimalPoint (CHR ''.'' # r) = Some r"
  "\<not> isDigit c \<Longrightarrow> c \<noteq> CHR ''.'' \<Longrightarrow> decimalPoint (c # r) = None"
  by (simp_all add: decimalPoint_def isDigit_def)

lemma numberLoop_decimal:
  "numberLoop \<lparr>scanned = s, remaining = r\<rparr> True
   = (\<lparr>scanned = s @ takeWhile isDigit r, remaining = dropWhile isDigit r\<rparr>, True)"
proof (induction r arbitrary: s)
  case Nil
  show ?case by (subst numberLoop.simps) (simp add: isAtEnd_def)
next
  case (Cons c r)
  show ?case
  proof (cases "isDigit c")
    case True
    have step: "numberLoop \<lparr>scanned = s, remaining = c # r\<rparr> True
        = numberLoop \<lparr>scanned = s @ [c], remaining = r\<rparr> True"
      using True by (subst numberLoop.simps) (simp add: isAtEnd_def peek_def advance_def)
    show ?thesis by (simp add: step Cons.IH True)
  next
    case False
    then show ?thesis by (subst numberLoop.simps) (simp add: isAtEnd_def peek_def)
  qed
qed

lemma numberLoop_integer_part:
  "numberLoop \<lparr>scanned = s, remaining = r\<rparr> False
   = (case decimalPoint r of
        None \<Rightarrow> (\<lparr>scanned = s @ takeWhile isDigit r, remaining = dropWhile isDigit r\<rparr>, False)
      | Some r2 \<Rightarrow>
          (\<lparr>scanned = s @ takeWhile isDigit r @ ''.'' @ takeWhile isDigit r2,
            remaining = dropWhile isDigit r2\<rparr>, True))"
proof (induction r arbitrary: s)
  case Nil
  show ?case by (subst numberLoop.simps) (simp add: isAtEnd_def decimalPoint_simps)
next
  case (Cons c r)
  show ?case
  proof (cases "isDigit c")
    case True
    then have nd: "c \<noteq> CHR ''.''" by (auto simp: isDigit_def)
    have step: "numberLoop \<lparr>scanned = s, remaining = c # r\<rparr> False
        = numberLoop \<lparr>scanned = s @ [c], remaining = r\<rparr> False"
      using True nd by (subst numberLoop.simps) (simp add: isAtEnd_def peek_def advance_def)
    show ?thesis
      by (cases "decimalPoint r") (simp_all add: step Cons.IH True decimalPoint_simps)
  next
    case False
    show ?thesis
    proof (cases "c = CHR ''.''")
      case True
      have step: "numberLoop \<lparr>scanned = s, remaining = c # r\<rparr> False
          = numberLoop \<lparr>scanned = s @ [c], remaining = r\<rparr> True"
        using True by (subst numberLoop.simps) (simp add: isAtEnd_def peek_def advance_def)
      show ?thesis
        by (simp add: True step [unfolded True] numberLoop_decimal decimalPoint_simps isDigit_def)
    next
      case nd: False
      then show ?thesis using False
        by (subst numberLoop.simps) (simp add: isAtEnd_def peek_def decimalPoint_simps)
    qed
  qed
qed

text \<open>Claim C5, as amended. When the lexer scans a token that starts with a digit, it
  takes the run of digits; if a \<open>.\<close> follows the run, it takes the point and the run of
  digits after it, which may be empty, and the token is FLOAT; otherwise the token is
  INTEGER. At most one decimal point is taken: scanning stops at the first character
  after the second run that is not a digit, a second \<open>.\<close> included.\<close>

theorem number_token:
  assumes "isDigit d"
  shows "nextToken \<lparr>scanned = s, remaining = d # r\<rparr>
     = (case decimalPoint r of
          None \<Rightarrow>
            (Some (Token TK_INTEGER (d # takeWhile isDigit r)),
             \<lparr>scanned = d # takeWhile isDigit r, remaining = dropWhile isDigit r\<rparr>)
        | Some r2 \<Rightarrow>
            (Some (Token TK_FLOAT (d # takeWhile isDigit r @ ''.'' @ takeWhile isDigit r2)),
             \<lparr>scanned = d # takeWhile isDigit r @ ''.'' @ takeWhile isDigit r2,
              remaining = dropWhile isDigit r2\<rparr>))"
proof -
  have sk: "skipWhitespace \<lparr>scanned = s, remaining = d # r\<rparr> = \<lparr>scanned = s, remaining = d # r\<rparr>"
    using digit_facts(1) [OF assms] by (subst skipWhitespace.simps) (simp add: peek_def)
  have "nextToken \<lparr>scanned = s, remaining = d # r\<rparr>
      = (case readNumber \<lparr>scanned = [d], remaining = r\<rparr> of (t, L4) \<Rightarrow> (Some t, L4))"
    using assms digit_facts [OF assms]
    by (subst nextToken.simps)
       (simp add: sk Let_def isAtEnd_def markStart_def peek_def advance_def)
  then show ?thesis
    by (cases "decimalPoint r") (simp_all add: readNumber_def numberLoop_integer_part)
qed

theorem number_token_witness:
  "isDigit (CHR ''1'') \<and>
   nextToken \<lparr>scanned = [], remaining = ''1.;''\<rparr>
     = (Some (Token TK_FLOAT ''1.''), \<lparr>scanned = ''1.'', remaining = '';''\<rparr>)"
proof -
  have d: "isDigit (CHR ''1'')" by (simp add: isDigit_def)
  show ?thesis using d number_token [OF d, of "[]" "''.;''"]
    by (simp add: isDigit_def decimalPoint_def)
qed

text \<open>Claim C5, as stated, fails on \<open>1.\<close> followed by a non-digit: the token is the
  FLOAT \<open>1.\<close>, not the INTEGER \<open>1\<close>.\<close>

theorem number_trailing_point_counterexample:
  "tokenize ''1.;'' = [Token TK_FLOAT ''1.'', Token TK_SEMICOLON '';'', Token TK_END_OF_FILE []]"
  by code_simp

section \<open>Properties of the parser\<close>

lemma tokenize_binary_chain:
  assumes "digits a" "digits b" "digits c" "plainOperator o1" "plainOperator o2"
  shows "tokenize (a @ [CHR '' '', o1, CHR '' ''] @ b @ [CHR '' '', o2, CHR '' ''] @ c @ '';'')
     = [Token TK_INTEGER a, singleCharToken o1, Token TK_INTEGER b, singleCharToken o2,
        Token TK_INTEGER c, Token TK_SEMICOLON '';'', Token TK_END_OF_FILE []]"
proof -
  obtain a0 as where a: "a = a0 # as" using assms(1) by (cases a) (auto simp: digits_def)
  let ?r4 = "CHR '' '' # c @ '';''"
  let ?r3 = "CHR '' '' # o2 # ?r4"
  let ?r2 = "CHR '' '' # b @ ?r3"
  let ?r1 = "CHR '' '' # o1 # ?r2"
  have 1: "nextToken \<lparr>scanned = [], remaining = a0 # as @ ?r1\<rparr>
      = (Some (Token TK_INTEGER a), \<lparr>scanned = a, remaining = ?r1\<rparr>)"
    using nextToken_integer [OF assms(1), of ?r1 "[]"] by (simp add: a endsNumber_def isDigit_def)
  have 2: "nextToken \<lparr>scanned = [], remaining = ?r1\<rparr>
      = (Some (singleCharToken o1), \<lparr>scanned = [o1], remaining = ?r2\<rparr>)"
    using nextToken_space [of "[]" "o1 # ?r2"] nextToken_single [of o1 "'' ''" "b @ ?r3"] assms(4)
    by (simp add: plainOperator_def)
  have 3: "nextToken \<lparr>scanned = [], remaining = ?r2\<rparr>
      = (Some (Token TK_INTEGER b), \<lparr>scanned = b, remaining = ?r3\<rparr>)"
    using nextToken_space [of "[]" "b @ ?r3"] nextToken_integer [OF assms(2), of ?r3 "'' ''"]
    by (simp add: endsNumber_def isDigit_def)
  have 4: "nextToken \<lparr>scanned = [], remaining = ?r3\<rparr>
      = (Some (singleCharToken o2), \<lparr>scanned = [o2], remaining = ?r4\<rparr>)"
    using nextToken_space [of "[]" "o2 # ?r4"] nextToken_single [of o2 "'' ''" "c @ '';''"] assms(5)
    by (simp add: plainOperator_def)
  have 5: "nextToken \<lparr>scanned = [], remaining = ?r4\<rparr>
      = (Some (Token TK_INTEGER c), \<lparr>scanned = c, remaining = '';''\<rparr>)"
    using nextToken_space [of "[]" "c @ '';''"] nextToken_integer [OF assms(3), of "'';''" "'' ''"]
    by (simp add: endsNumber_def isDigit_def)
  have 6: "nextToken \<lparr>scanned = [], remaining = '';''\<rparr>
      = (Some (Token TK_SEMICOLON '';''), \<lparr>scanned = '';'', remaining = []\<rparr>)"
    by (rule nextToken_semicolon_end)
  have "tokenizeLoop \<lparr>scanned = [], remaining = a0 # as @ ?r1\<rparr> []
      = tokenizeLoop \<lparr>scanned = a, remaining = ?r1\<rparr> [Token TK_INTEGER a]"
    using tokenizeLoop_step [OF 1, of "[]" "[]"] by simp
  also have "\<dots> = tokenizeLoop \<lparr>scanned = [o1], remaining = ?r2\<rparr>
      [Token TK_INTEGER a, singleCharToken o1]"
    using tokenizeLoop_step [OF 2] by simp
  also have "\<dots> = tokenizeLoop \<lparr>scanned = b, remaining = ?r3\<rparr>
      [Token TK_INTEGER a, singleCharToken o1, Token TK_INTEGER b]"
    using tokenizeLoop_step [OF 3] by simp
  also have "\<dots> = tokenizeLoop \<lparr>scanned = [o2], remaining = ?r4\<rparr>
      [Token TK_INTEGER a, singleCharToken o1, Token TK_INTEGER b, singleCharToken o2]"
    using tokenizeLoop_step [OF 4] by simp
  also have "\<dots> = tokenizeLoop \<lparr>scanned = c, remaining = '';''\<rparr>
      [Token TK_INTEGER a, singleCharToken o1, Token TK_INTEGER b, singleCharToken o2,
       Token TK_INTEGER c]"
    using tokenizeLoop_step [OF 5] by simp
  also have "\<dots> = tokenizeLoop \<lparr>scanned = '';'', remaining = []\<rparr>
      [Token TK_INTEGER a, singleCharToken o1, Token TK_INTEGER b, singleCharToken o2,
       Token TK_INTEGER c, Token TK_SEMICOLON '';'']"
    using tokenizeLoop_step [OF 6] by simp
  finally show ?thesis by (simp add: tokenize_def a tokenizeLoop_end)
qed

lemmas parser_unfold =
  parse_def parseFuel_def newParser_def parseExpressionStatement_def
  parseTerm_def parseFactor_def parseComparison_def parseEquality_def parseLogicalAnd_def
  parseLogicalOr_def parsePrimary_def matchP_def check_def isAtEndP_def peekP_def advanceP_def
  previous_def consume_def factorOp_def

lemma additive_token:
  assumes "(p, P) \<in> set additive"
  shows "plainOperator p"
    and "singleCharToken p = Token (if P = ADD then TK_PLUS else TK_MINUS) [p]"
    and "P = ADD \<or> P = SUBTRACT"
  using assms
  by (auto simp: additive_def plainOperator_def twoCharOperators_def isWhitespace_def
      isAlpha_def isDigit_def singleCharToken_def)

lemma multiplicative_token:
  assumes "(m, M) \<in> set multiplicative"
  shows "plainOperator m"
    and "singleCharToken m = Token (if M = MULTIPLY then TK_MULTIPLY else TK_MODULO) [m]"
    and "M = MULTIPLY \<or> M = MODULO"
  using assms
  by (auto simp: multiplicative_def plainOperator_def twoCharOperators_def isWhitespace_def
      isAlpha_def isDigit_def singleCharToken_def)

lemma parse_term_factor:
  assumes "P = ADD \<or> P = SUBTRACT" "M = MULTIPLY \<or> M = MODULO"
  shows "parse [Token TK_INTEGER a, Token (if P = ADD then TK_PLUS else TK_MINUS) x,
          Token TK_INTEGER b, Token (if M = MULTIPLY then TK_MULTIPLY else TK_MODULO) y,
          Token TK_INTEGER c, Token TK_SEMICOLON '';'', Token TK_END_OF_FILE []]
   = Inr [ExpressionStatement
            (BinaryExpression (LiteralExpression a INT') P
               (BinaryExpression (LiteralExpression b INT') M (LiteralExpression c INT')))]"
  using assms by (auto simp: parser_unfold)

lemma parse_factor_term:
  assumes "P = ADD \<or> P = SUBTRACT" "M = MULTIPLY \<or> M = MODULO"
  shows "parse [Token TK_INTEGER a, Token (if M = MULTIPLY then TK_MULTIPLY else TK_MODULO) x,
          Token TK_INTEGER b, Token (if P = ADD then TK_PLUS else TK_MINUS) y,
          Token TK_INTEGER c, Token TK_SEMICOLON '';'', Token TK_END_OF_FILE []]
   = Inr [ExpressionStatement
            (BinaryExpression
               (BinaryExpression (LiteralExpression a INT') M (LiteralExpression b INT'))
               P (LiteralExpression c INT'))]"
  using assms by (auto simp: parser_unfold)

lemma parse_term_term:
  assumes "P = ADD \<or> P = SUBTRACT" "Q = ADD \<or> Q = SUBTRACT"
  shows "parse [Token TK_INTEGER a, Token (if P = ADD then TK_PLUS else TK_MINUS) x,
          Token TK_INTEGER b, Token (if Q = ADD then TK_PLUS else TK_MINUS) y,
          Token TK_INTEGER c, Token TK_SEMICOLON '';'', Token TK_END_OF_FILE []]
   = Inr [ExpressionStatement
            (BinaryExpression
               (BinaryExpression (LiteralExpression a INT') P (LiteralExpression b INT'))
               Q (LiteralExpression c INT'))]"
  using assms by (auto simp: parser_unfold)

lemma parse_factor_factor:
  assumes "M = MULTIPLY \<or> M = MODULO" "N = MULTIPLY \<or> N = MODULO"
  shows "parse [Token TK_INTEGER a, Token (if M = MULTIPLY then TK_MULTIPLY else TK_MODULO) x,
          Token TK_INTEGER b, Token (if N = MULTIPLY then TK_MULTIPLY else TK_MODULO) y,
          Token TK_INTEGER c, Token TK_SEMICOLON '';'', Token TK_END_OF_FILE []]
   = Inr [ExpressionStatement
            (BinaryExpression
               (BinaryExpression (LiteralExpression a INT') M (LiteralExpression b INT'))
               N (LiteralExpression c INT'))]"
  using assms by (auto simp: parser_unfold)

text \<open>Claim C8. For integer literals \<open>a\<close>, \<open>b\<close>, \<open>c\<close>, the source \<open>a + b * c;\<close>
  parses to \<open>Binary(a, +, Binary(b, *, c))\<close> and \<open>a * b + c;\<close> parses to
  \<open>Binary(Binary(a, *, b), +, c)\<close>. More generally, for operators \<open>p\<close>, \<open>q\<close> of the
  level \<open>term\<close> (\<open>+\<close>, \<open>-\<close>) and \<open>m\<close>, \<open>n\<close> of the level \<open>factor\<close> (\<open>*\<close>, \<open>%\<close>):
  an operator of \<open>factor\<close> binds tighter than one of \<open>term\<close> on either side of it, and
  two operators of the same level associate to the left, \<open>a p b q c;\<close> parsing to
  \<open>Binary(Binary(a, p, b), q, c)\<close> and \<open>a m b n c;\<close> to
  \<open>Binary(Binary(a, m, b), n, c)\<close>.\<close>

theorem parser_precedence:
  assumes "digits a" "digits b" "digits c"
    and "(p, P) \<in> set additive" "(q, Q) \<in> set additive"
    and "(m, M) \<in> set multiplicative" "(n, N) \<in> set multiplicative"
  shows "parse (tokenize (a @ '' + '' @ b @ '' * '' @ c @ '';''))
         = Inr [ExpressionStatement
            (BinaryExpression (LiteralExpression a INT') ADD
               (BinaryExpression (LiteralExpression b INT') MULTIPLY (LiteralExpression c INT')))]
       \<and> parse (tokenize (a @ '' * '' @ b @ '' + '' @ c @ '';''))
         = Inr [ExpressionStatement
            (BinaryExpression
               (BinaryExpression (LiteralExpression a INT') MULTIPLY (LiteralExpression b INT'))
               ADD (LiteralExpression c INT'))]
       \<and> parse (tokenize (a @ [CHR '' '', p, CHR '' ''] @ b @ [CHR '' '', m, CHR '' ''] @ c @ '';''))
         = Inr [ExpressionStatement
            (BinaryExpression (LiteralExpression a INT') P
               (BinaryExpression (LiteralExpression b INT') M (LiteralExpression c INT')))]
       \<and> parse (tokenize (a @ [CHR '' '', m, CHR '' ''] @ b @ [CHR '' '', p, CHR '' ''] @ c @ '';''))
         = Inr [ExpressionStatement
            (BinaryExpression
               (BinaryExpression (LiteralExpression a INT') M (LiteralExpression b INT'))
               P (LiteralExpression c INT'))]
       \<and> parse (tokenize (a @ [CHR '' '', p, CHR '' ''] @ b @ [CHR '' '', q, CHR '' ''] @ c @ '';''))
         = Inr [ExpressionStatement
            (BinaryExpression
               (BinaryExpression (LiteralExpression a INT') P (LiteralExpression b INT'))
               Q (LiteralExpression c INT'))]
       \<and> parse (tokenize (a @ [CHR '' '', m, CHR '' ''] @ b @ [CHR '' '', n, CHR '' ''] @ c @ '';''))
         = Inr [ExpressionStatement
            (BinaryExpression
               (BinaryExpression (LiteralExpression a INT') M (LiteralExpression b INT'))
               N (LiteralExpression c INT'))]"
proof -
  note p = additive_token [OF assms(4)] and q = additive_token [OF assms(5)]
    and m = multiplicative_token [OF assms(6)] and n = multiplicative_token [OF assms(7)]
  have plus: "(CHR ''+'', ADD) \<in> set additive" by (simp add: additive_def)
  have times: "(CHR ''*'', MULTIPLY) \<in> set multiplicative" by (simp add: multiplicative_def)
  note pl = additive_token [OF plus] and ti = multiplicative_token [OF times]
  have 1: "parse (tokenize (a @ '' + '' @ b @ '' * '' @ c @ '';''))
         = Inr [ExpressionStatement
            (BinaryExpression (LiteralExpression a INT') ADD
               (BinaryExpression (LiteralExpression b INT') MULTIPLY (LiteralExpression c INT')))]"
    using tokenize_binary_chain [OF assms(1-3) pl(1) ti(1)] parse_term_factor [OF pl(3) ti(3)]
    by (simp add: pl(2) ti(2))
  have 2: "parse (tokenize (a @ '' * '' @ b @ '' + '' @ c @ '';''))
         = Inr [ExpressionStatement
            (BinaryExpression
               (BinaryExpression (LiteralExpression a INT') MULTIPLY (LiteralExpression b INT'))
               ADD (LiteralExpression c INT'))]"
    using tokenize_binary_chain [OF assms(1-3) ti(1) pl(1)] parse_factor_term [OF pl(3) ti(3)]
    by (simp add: pl(2) ti(2))
  have 3: "parse (tokenize (a @ [CHR '' '', p, CHR '' ''] @ b @ [CHR '' '', m, CHR '' ''] @ c @ '';''))
         = Inr [ExpressionStatement
            (BinaryExpression (LiteralExpression a INT') P
               (BinaryExpression (LiteralExpression b INT') M (LiteralExpression c INT')))]"
    using tokenize_binary_chain [OF assms(1-3) p(1) m(1)] parse_term_factor [OF p(3) m(3)]
    by (simp add: p(2) m(2))
  have 4: "parse (tokenize (a @ [CHR '' '', m, CHR '' ''] @ b @ [CHR '' '', p, CHR '' ''] @ c @ '';''))
         = Inr [ExpressionStatement
            (BinaryExpression
               (BinaryExpression (LiteralExpression a INT') M (LiteralExpression b INT'))
               P (LiteralExpression c INT'))]"
    using tokenize_binary_chain [OF assms(1-3) m(1) p(1)] parse_factor_term [OF p(3) m(3)]
    by (simp add: p(2) m(2))
  have 5: "parse (tokenize (a @ [CHR '' '', p, CHR '' ''] @ b @ [CHR '' '', q, CHR '' ''] @ c @ '';''))
         = Inr [ExpressionStatement
            (BinaryExpression
               (BinaryExpression (LiteralExpression a INT') P (LiteralExpression b INT'))
               Q (LiteralExpression c INT'))]"
    using tokenize_binary_chain [OF assms(1-3) p(1) q(1)] parse_term_term [OF p(3) q(3)]
    by (simp add: p(2) q(2))
  have 6: "parse (tokenize (a @ [CHR '' '', m, CHR '' ''] @ b @ [CHR '' '', n, CHR '' ''] @ c @ '';''))
         = Inr [ExpressionStatement
            (BinaryExpression
               (BinaryExpression (LiteralExpression a INT') M (LiteralExpression b INT'))
               N (LiteralExpression c INT'))]"
    using tokenize_binary_chain [OF assms(1-3) m(1) n(1)] parse_factor_factor [OF m(3) n(3)]
    by (simp add: m(2) n(2))
  from 1 2 3 4 5 6 show ?thesis by blast
qed

theorem parser_precedence_witness:
  "digits ''12'' \<and> digits ''3'' \<and> digits ''45''
   \<and> (CHR ''-'', SUBTRACT) \<in> set additive \<and> (CHR ''+'', ADD) \<in> set additive
   \<and> (CHR ''*'', MULTIPLY) \<in> set multiplicative \<and> (CHR ''%'', MODULO) \<in> set multiplicative
   \<and> parse (tokenize ''12 + 3 * 45;'')
       = Inr [ExpressionStatement
            (BinaryExpression (LiteralExpression ''12'' INT') ADD
               (BinaryExpression (LiteralExpression ''3'' INT') MULTIPLY (LiteralExpression ''45'' INT')))]
   \<and> parse (tokenize ''12 * 3 + 45;'')
       = Inr [ExpressionStatement
            (BinaryExpression
               (BinaryExpression (LiteralExpression ''12'' INT') MULTIPLY (LiteralExpression ''3'' INT'))
               ADD (LiteralExpression ''45'' INT'))]
   \<and> parse (tokenize ''12 - 3 - 45;'')
       = Inr [ExpressionStatement
            (BinaryExpression
               (BinaryExpression (LiteralExpression ''12'' INT') SUBTRACT (LiteralExpression ''3'' INT'))
               SUBTRACT (LiteralExpression ''45'' INT'))]
   \<and> parse (tokenize ''12 - 3 + 45;'')
       = Inr [ExpressionStatement
            (BinaryExpression
               (BinaryExpression (LiteralExpression ''12'' INT') SUBTRACT (LiteralExpression ''3'' INT'))
               ADD (LiteralExpression ''45'' INT'))]
   \<and> parse (tokenize ''12 % 3 * 45;'')
       = Inr [ExpressionStatement
            (BinaryExpression
               (BinaryExpression (LiteralExpression ''12'' INT') MODULO (LiteralExpression ''3'' INT'))
               MULTIPLY (LiteralExpression ''45'' INT'))]
   \<and> parse (tokenize ''12 - 3 % 45;'')
       = Inr [ExpressionStatement
            (BinaryExpression (LiteralExpression ''12'' INT') SUBTRACT
               (BinaryExpression (LiteralExpression ''3'' INT') MODULO (LiteralExpression ''45'' INT')))]"
proof -
  have d: "digits ''12''" "digits ''3''" "digits ''45''"
    by (simp_all add: digits_def isDigit_def)
  have o: "(CHR ''-'', SUBTRACT) \<in> set additive" "(CHR ''+'', ADD) \<in> set additive"
    "(CHR ''*'', MULTIPLY) \<in> set multiplicative" "(CHR ''%'', MODULO) \<in> set multiplicative"
    by (simp_all add: additive_def multiplicative_def)
  show ?thesis
    using d o parser_precedence [OF d o(1) o(1) o(4) o(3)] parser_precedence [OF d o(1) o(2) o(4) o(3)]
    by simp
qed

text \<open>With a SLASH token in the place of DIVIDE the same statement parses to the
  division: the loop of \<open>parseFactor\<close> is written for a token kind that the lexer does
  not produce.\<close>

lemma slash_token_parsed:
  "parse [Token TK_IDENTIFIER ''a'', Token TK_SLASH ''/'', Token TK_IDENTIFIER ''b'',
          Token TK_SEMICOLON '';'', Token TK_END_OF_FILE []]
   = Inr [ExpressionStatement
            (BinaryExpression (VariableExpression ''a'') DIVIDE (VariableExpression ''b''))]"
  by code_simp

text \<open>Claim C2 at the source \<open>a / b ;\<close>. The lexer produces DIVIDE for \<open>/\<close>, the
  loop of \<open>parseFactor\<close> looks for SLASH, and the statement ends in the exception
  of \<open>consume\<close> instead of the expression \<open>Binary(a, DIVIDE, b)\<close>.\<close>

theorem division_not_parsed:
  "tokenize ''a / b ;'' = [Token TK_IDENTIFIER ''a'', Token TK_DIVIDE ''/'', Token TK_IDENTIFIER ''b'',
       Token TK_SEMICOLON '';'', Token TK_END_OF_FILE []]
   \<and> parse (tokenize ''a / b ;'') = Inl (Thrown ''Expect ';' after expression.'')"
  by code_simp

section \<open>Properties of the semantic analyzer\<close>

text \<open>Visiting an expression changes the list of diagnostics and
  \<open>currentExpressionType_\<close> only.\<close>

lemma reportError_frame [simp]:
  "symbolTable (reportError st m) = symbolTable st"
  "inFunction (reportError st m) = inFunction st"
  "inLoop (reportError st m) = inLoop st"
  "currentFunctionReturnType (reportError st m) = currentFunctionReturnType st"
  "currentExpressionType (reportError st m) = currentExpressionType st"
  "errors (reportError st m) = errors st @ [m]"
  by (simp_all add: reportError_def)

lemma visitExpression_frame:
  "symbolTable (visitExpression e st) = symbolTable st \<and>
   inFunction (visitExpression e st) = inFunction st \<and>
   inLoop (visitExpression e st) = inLoop st \<and>
   currentFunctionReturnType (visitExpression e st) = currentFunctionReturnType st"
  "symbolTable (checkArguments es ps i st) = symbolTable st \<and>
   inFunction (checkArguments es ps i st) = inFunction st \<and>
   inLoop (checkArguments es ps i st) = inLoop st \<and>
   currentFunctionReturnType (checkArguments es ps i st) = currentFunctionReturnType st"
proof (induction e st and es ps i st rule: visitExpression_checkArguments.induct)
  case (1 v t st)
  then show ?case by simp
next
  case (2 vname st)
  then show ?case by (simp split: option.split)
next
  case (3 left op right st)
  then show ?case by (simp add: Let_def)
next
  case (4 op operand st)
  then show ?case by (simp add: Let_def)
next
  case (5 vname val st)
  then show ?case by (simp add: Let_def split: option.split)
next
  case (6 fname arguments st)
  then show ?case by (simp split: option.split)
next
  case (7 ptypes i st)
  then show ?case by simp
next
  case (8 arg rest ptypes i st)
  then show ?case by (simp add: Let_def)
qed

text \<open>The trace is the visit: its second result is the analyzer that \<open>visitStatement\<close>
  returns.\<close>

lemma trace_visit_list:
  assumes "\<And>s c st. s \<in> set ss \<Longrightarrow> snd (traceStatement c s st) = visitStatement s st"
  shows "snd (traceStatements c ss st) = visitStatements ss st"
  using assms by (induction ss arbitrary: st) (simp_all add: split_beta)

lemma trace_visit: "snd (traceStatement c s st) = visitStatement s st"
proof (induction s arbitrary: c st)
  case (BlockStatement statements)
  then show ?case by (simp add: Let_def split_beta trace_visit_list)
next
  case (IfStatement condition thenBranch elseBranch)
  then show ?case by (cases elseBranch) (simp_all add: Let_def split_beta)
qed (simp_all add: Let_def split_beta)

lemma trace_visits: "snd (traceStatements c ss st) = visitStatements ss st"
  by (simp add: trace_visit_list trace_visit)

text \<open>The visit of a statement returns \<open>inFunction_\<close> and
  \<open>currentFunctionReturnType_\<close> as it found them, so that the two members follow the
  position in the syntax tree: at every visit of a return statement they name the
  function declaration that encloses the statement.\<close>

lemma checkExpression_flags:
  "inFunction (snd (checkExpression e st)) = inFunction st"
  "currentFunctionReturnType (snd (checkExpression e st)) = currentFunctionReturnType st"
  by (simp_all add: checkExpression_def visitExpression_frame)

lemma visitVariableDeclaration_flags:
  "inFunction (visitVariableDeclaration n t i st) = inFunction st"
  "currentFunctionReturnType (visitVariableDeclaration n t i st) = currentFunctionReturnType st"
  by (simp_all add: visitVariableDeclaration_def Let_def split_beta checkExpression_flags
      split: option.split)

lemma visitReturnStatement_flags:
  "inFunction (visitReturnStatement v st) = inFunction st"
  "currentFunctionReturnType (visitReturnStatement v st) = currentFunctionReturnType st"
  by (simp_all add: visitReturnStatement_def Let_def split_beta checkExpression_flags
      split: option.split)

lemma visitStatements_flags:
  assumes "\<And>s st. s \<in> set ss \<Longrightarrow>
             inFunction (visitStatement s st) = inFunction st \<and>
             currentFunctionReturnType (visitStatement s st) = currentFunctionReturnType st"
  shows "inFunction (visitStatements ss st) = inFunction st \<and>
         currentFunctionReturnType (visitStatements ss st) = currentFunctionReturnType st"
  using assms by (induction ss arbitrary: st) simp_all

lemma visitStatement_flags:
  "inFunction (visitStatement s st) = inFunction st \<and>
   currentFunctionReturnType (visitStatement s st) = currentFunctionReturnType st"
proof (induction s arbitrary: st)
  case (BlockStatement statements)
  show ?case
    using visitStatements_flags [of statements "st\<lparr>symbolTable := enterScope (symbolTable st)\<rparr>"]
      BlockStatement.IH
    by (simp add: Let_def)
next
  case (VariableDeclaration vname vtype initializer)
  then show ?case by (simp add: visitVariableDeclaration_flags)
next
  case (FunctionDeclaration fname rtype parameters body)
  then show ?case by (simp add: Let_def split_beta)
next
  case (IfStatement condition thenBranch elseBranch)
  then show ?case
    by (cases elseBranch) (simp_all add: Let_def split_beta checkExpression_flags)
next
  case (WhileStatement condition body)
  then show ?case by (simp add: Let_def split_beta checkExpression_flags)
next
  case (ReturnStatement val)
  then show ?case by (simp add: visitReturnStatement_flags)
next
  case (ExpressionStatement expression)
  then show ?case by (simp add: checkExpression_flags)
qed

lemma enclosingFunction_visitStatement:
  "enclosingFunction (visitStatement s st) = enclosingFunction st"
  by (simp add: enclosingFunction_def visitStatement_flags)

lemma enclosingFunction_visitStatements:
  "enclosingFunction (visitStatements ss st) = enclosingFunction st"
  by (induction ss arbitrary: st) (simp_all add: enclosingFunction_visitStatement)











lemma isCompatible_iff:
  "isCompatible from to
   = (from = to \<or> from = UNKNOWN \<or> to = UNKNOWN \<or>
      (from \<in> {INT', FLOAT} \<and> to \<in> {INT', FLOAT}))"
  by (cases "from"; cases "to"; simp add: isCompatible_def)

lemma assignment_mismatch:
  assumes "lookup (symbolTable st) vname = Some symbol"
    and "\<not> isCompatible (fst (checkExpression val st)) (type symbol)"
  shows "errors (visitExpression (AssignmentExpression vname val) st)
      = errors (snd (checkExpression val st)) @
        [''Cannot assign '' @ dataTypeToString (fst (checkExpression val st)) @
         '' to variable of type '' @ dataTypeToString (type symbol)]"
  using assms by (simp add: checkExpression_def visitExpression_frame Let_def)

text \<open>Claim C6. \<open>isCompatible from to\<close> holds if and only if the two types are equal,
  or one of them is \<open>UNKNOWN\<close>, or both are numeric (\<open>INT\<close> or \<open>FLOAT\<close>); and an
  assignment whose value type is incompatible with the type of the variable it names is
  reported: the diagnostic "Cannot assign ... to variable of type ..." follows the
  diagnostics of the value.\<close>

theorem compatibility:
  "isCompatible from to
   = (from = to \<or> from = UNKNOWN \<or> to = UNKNOWN \<or>
      (from \<in> {INT', FLOAT} \<and> to \<in> {INT', FLOAT}))
   \<and> (lookup (symbolTable st) vname = Some symbol \<and>
      \<not> isCompatible (fst (checkExpression val st)) (type symbol) \<longrightarrow>
      errors (visitExpression (AssignmentExpression vname val) st)
      = errors (snd (checkExpression val st)) @
        [''Cannot assign '' @ dataTypeToString (fst (checkExpression val st)) @
         '' to variable of type '' @ dataTypeToString (type symbol)])"
  using isCompatible_iff [of "from" "to"] assignment_mismatch [of st vname symbol val]
  by blast

theorem compatibility_witness:
  "isCompatible INT' FLOAT \<and> isCompatible FLOAT INT' \<and> \<not> isCompatible STRING INT' \<and>
   errors (visitExpression (AssignmentExpression ''x'' (LiteralExpression ''s'' STRING))
             (visitStatement (VariableDeclaration ''x'' INT' None) newSemanticAnalyzer))
   = [''Cannot assign string to variable of type int'']"
proof -
  let ?st = "visitStatement (VariableDeclaration ''x'' INT' None) newSemanticAnalyzer"
  have l: "lookup (symbolTable ?st) ''x'' = Some (mkSymbol ''x'' INT' False)"
    by code_simp
  have e: "errors ?st = []" by code_simp
  have c: "isCompatible INT' FLOAT" "isCompatible FLOAT INT'" "\<not> isCompatible STRING INT'"
    using compatibility [of INT' FLOAT] compatibility [of FLOAT INT']
      compatibility [of STRING INT'] by simp_all
  have t: "type (mkSymbol ''x'' INT' False) = INT'" by (simp add: mkSymbol_def)
  have "errors (visitExpression (AssignmentExpression ''x'' (LiteralExpression ''s'' STRING)) ?st)
      = errors (snd (checkExpression (LiteralExpression ''s'' STRING) ?st)) @
        [''Cannot assign '' @ dataTypeToString (fst (checkExpression (LiteralExpression ''s'' STRING) ?st)) @
         '' to variable of type '' @ dataTypeToString (type (mkSymbol ''x'' INT' False))]"
    using compatibility [of INT' FLOAT ?st "''x''" "mkSymbol ''x'' INT' False"
        "LiteralExpression ''s'' STRING"] l c(3) t
    by (simp add: checkExpression_def)
  then show ?thesis using c e t by (simp add: checkExpression_def dataTypeToString_def)
qed

section \<open>Properties of the lowerer\<close>

text \<open>Lowering an expression leaves \<open>variables_\<close> as it is; lowering a statement
  only adds to it or overwrites an entry.\<close>

lemma andThen_Inr:
  "andThen r f = Inr y \<longleftrightarrow> (\<exists>x. r = Inr x \<and> f x = Inr y)"
  by (cases r) (simp_all add: andThen_def)

lemma variables_emit [simp]: "variables (emit st i) = variables st"
  by (simp add: emit_def split: option.split prod.split)

lemma variables_reportErrorCG [simp]: "variables (reportErrorCG st m) = variables st"
  by (simp add: reportErrorCG_def)

lemma variables_createBlock [simp]: "variables (fst (createBlock st f n)) = variables st"
  by (simp add: createBlock_def Let_def)

lemma variables_createBlock' : "createBlock st f n = (st', p) \<Longrightarrow> variables st' = variables st"
  using variables_createBlock [of st f n] by simp

lemma variables_createAlloca:
  "createAlloca st t n = Inr (v, st') \<Longrightarrow> variables st' = variables st"
  by (auto simp: createAlloca_def split: option.splits prod.splits)

lemma variables_emitValue:
  "emitValue st mk t = (v, st') \<Longrightarrow> variables st' = variables st"
  by (auto simp: emitValue_def)

lemma variables_generateBinaryOperation:
  "generateBinaryOperation st l op r = (v, st') \<Longrightarrow> variables st' = variables st"
  by (auto simp: generateBinaryOperation_def split: option.splits prod.splits
      dest: variables_emitValue)

lemma variables_generateUnaryOperation:
  "generateUnaryOperation st op x = (v, st') \<Longrightarrow> variables st' = variables st"
  by (auto simp: generateUnaryOperation_def split: if_splits prod.splits
      dest: variables_emitValue)

lemma andThen_InrE:
  assumes "andThen r f = Inr y"
  obtains x where "r = Inr x" and "f x = Inr y"
  using assms by (cases r) (simp_all add: andThen_def)

lemma variables_visitExpressionCG:
  "visitExpressionCG e st = Inr st' \<Longrightarrow> variables st' = variables st"
  "generateArguments es args st = Inr (ret, args', st') \<Longrightarrow> variables st' = variables st"
proof (induction e st and es args st arbitrary: st' and ret args' st'
    rule: visitExpressionCG_generateArguments.induct)
  case (1 v t st)
  then show ?case by (auto elim!: andThen_InrE split: if_splits option.splits)
next
  case (2 vname st)
  then show ?case
    by (auto simp: getVariable_def split: option.splits prod.splits dest: variables_emitValue)
next
  case (3 left op right st)
  from "3.prems" "3.IH" show ?case
    by (auto elim!: andThen_InrE split: option.splits prod.splits
        dest!: variables_generateBinaryOperation)
next
  case (4 op operand st)
  from "4.prems" "4.IH" show ?case
    by (auto elim!: andThen_InrE split: option.splits prod.splits
        dest!: variables_generateUnaryOperation)
next
  case (5 vname val st)
  from "5.prems" "5.IH" show ?case
    by (auto elim!: andThen_InrE split: option.splits)
next
  case (6 fname arguments st)
  from "6.prems" "6.IH" show ?case
    by (auto elim!: andThen_InrE split: option.splits if_splits prod.splits
        dest!: variables_emitValue)
next
  case (7 args st)
  then show ?case by simp
next
  case (8 arg rest args st)
  from "8.prems" "8.IH" show ?case
    by (auto elim!: andThen_InrE split: option.splits)
qed

lemma variables_generateExpression:
  "generateExpression e st = Inr (v, st') \<Longrightarrow> variables st' = variables st"
  by (auto simp: generateExpression_def andThen_Inr dest: variables_visitExpressionCG(1))


lemma variables_branchIfOpen:
  "branchIfOpen st t = Inr st' \<Longrightarrow> variables st' = variables st"
  by (auto simp: branchIfOpen_def split: option.splits if_splits)

lemma variables_functionEpilogue:
  "functionEpilogue rt st = Inr st' \<Longrightarrow> variables st' = variables st"
  by (auto simp: functionEpilogue_def Let_def split: option.splits if_splits)

lemma variables_visitReturnStatementCG:
  "visitReturnStatementCG val st = Inr st' \<Longrightarrow> variables st' = variables st"
  by (auto simp: visitReturnStatementCG_def elim!: andThen_InrE split: option.splits
      dest!: variables_generateExpression)

lemma dom_subsetD:
  "dom m \<subseteq> dom m' \<Longrightarrow> m x = Some y \<Longrightarrow> \<exists>z. m' x = Some z"
  by blast

lemma variables_visitVariableDeclarationCG:
  "visitVariableDeclarationCG vname vtype initializer st = Inr st' \<Longrightarrow>
   dom (variables st') = insert vname (dom (variables st))"
  by (auto simp: visitVariableDeclarationCG_def declareVariable_def Let_def
      elim!: andThen_InrE split: option.splits if_splits
      dest!: variables_generateExpression variables_createAlloca)

lemma variables_parameterSlots:
  "parameterSlots f ps i st = Inr st' \<Longrightarrow>
   dom (variables st) \<subseteq> dom (variables st') \<and>
   (\<forall>n. n \<notin> fst ` set ps \<longrightarrow> variables st' n = variables st n)"
proof (induction f ps i st arbitrary: st' rule: parameterSlots.induct)
  case (1 f i st)
  then show ?case by simp
next
  case (2 f pname ptype rest i st)
  from "2.prems" obtain paramVar st1 where
    a: "createAlloca st (getLLVMType ptype) pname = Inr (paramVar, st1)"
    and r: "parameterSlots f rest (i + 1)
         (declareVariable (emit st1 (Store (Argument f i (getLLVMType ptype)) paramVar))
            pname paramVar) = Inr st'"
    by (auto elim!: andThen_InrE)
  let ?st2 = "declareVariable (emit st1 (Store (Argument f i (getLLVMType ptype)) paramVar))
            pname paramVar"
  have v: "variables ?st2 = (variables st)(pname \<mapsto> paramVar)"
    using variables_createAlloca [OF a] by (simp add: declareVariable_def)
  from "2.IH" a r have ih: "dom (variables ?st2) \<subseteq> dom (variables st') \<and>
     (\<forall>n. n \<notin> fst ` set rest \<longrightarrow> variables st' n = variables ?st2 n)"
    by auto
  show ?case using ih v by auto
qed

lemma variables_functionPrologue:
  "functionPrologue fname rtype parameters st = Inr st' \<Longrightarrow>
   dom (variables st) \<subseteq> dom (variables st') \<and>
   (\<forall>n. n \<notin> fst ` set parameters \<longrightarrow> variables st' n = variables st n)"
  by (auto simp: functionPrologue_def Let_def elim!: andThen_InrE
      dest!: variables_parameterSlots dest: dom_subsetD)

lemma slots_kept_block:
  assumes "\<And>s st st'. s \<in> set ss \<Longrightarrow> visitStatementCG s st = Inr st' \<Longrightarrow>
             dom (variables st) \<subseteq> dom (variables st')"
  shows "generateBlock ss st = Inr st' \<Longrightarrow> dom (variables st) \<subseteq> dom (variables st')"
  using assms
proof (induction ss arbitrary: st)
  case Nil
  then show ?case by simp
next
  case (Cons s ss)
  from Cons.prems(1) obtain st1 where
    a: "visitStatementCG s st = Inr st1" and b: "generateBlock ss st1 = Inr st'"
    by (auto elim!: andThen_InrE)
  have "dom (variables st) \<subseteq> dom (variables st1)" using Cons.prems(2) [OF _ a] by simp
  moreover have "dom (variables st1) \<subseteq> dom (variables st')"
  proof (rule Cons.IH [OF b])
    fix s' st st'
    assume "s' \<in> set ss" "visitStatementCG s' st = Inr st'"
    then show "dom (variables st) \<subseteq> dom (variables st')"
      using Cons.prems(2) [of s' st st'] by simp
  qed
  ultimately show ?case by blast
qed

lemma slots_kept:
  "visitStatementCG s st = Inr st' \<Longrightarrow> dom (variables st) \<subseteq> dom (variables st')"
proof (induction s arbitrary: st st')
  case (BlockStatement statements)
  then show ?case using slots_kept_block [of statements st st'] by simp
next
  case (VariableDeclaration vname vtype initializer)
  then show ?case by (auto dest!: variables_visitVariableDeclarationCG)
next
  case (FunctionDeclaration fname rtype parameters body)
  from FunctionDeclaration.prems obtain st1 st2 where
    p: "functionPrologue fname rtype parameters st = Inr st1"
    and b: "visitStatementCG body st1 = Inr st2"
    and e: "functionEpilogue rtype st2 = Inr st'"
    by (auto elim!: andThen_InrE)
  show ?case
    using variables_functionPrologue [OF p] FunctionDeclaration.IH [OF b]
      variables_functionEpilogue [OF e]
    by (simp, blast)
next
  case (IfStatement condition thenBranch elseBranch)
  have ih_else: "dom (variables s0) \<subseteq> dom (variables s1)"
    if "elseBranch = Some s" "visitStatementCG s s0 = Inr s1" for s s0 s1
    using IfStatement.IH(2) [of s s0 s1] that by simp
  have chain: "dom (variables s0) \<subseteq> dom (variables st')"
    if "andThen (visitStatementCG thenBranch s0)
          (\<lambda>st6. andThen (branchIfOpen st6 m)
            (\<lambda>st7. andThen
                (case elseBranch of
                   None \<Rightarrow> Inr (st7\<lparr>insertPoint := Some e\<rparr>)
                 | Some s \<Rightarrow> visitStatementCG s (st7\<lparr>insertPoint := Some e\<rparr>))
                (\<lambda>st8. andThen (branchIfOpen st8 m)
                   (\<lambda>st9. Inr (st9\<lparr>insertPoint := Some m\<rparr>))))) = Inr st'"
    for s0 m e
    using that
    by (auto elim!: andThen_InrE split: option.splits
        dest!: variables_branchIfOpen IfStatement.IH(1) ih_else [rotated])
       (blast dest: dom_subsetD)+
  show ?case using IfStatement.prems
    apply (simp only: visitStatementCG.simps)
    apply (erule andThen_InrE)
    apply (clarsimp split: option.splits prod.splits simp: Let_def
        dest!: variables_generateExpression)
    apply (drule chain)
    apply (auto dest!: variables_createBlock')
    apply (blast dest: dom_subsetD)+
    done
next
  case (WhileStatement condition body)
  have chain: "dom (variables s0) \<subseteq> dom (variables st')"
    if "andThen (visitStatementCG body s0)
          (\<lambda>st7. andThen (branchIfOpen st7 l)
            (\<lambda>st8. Inr (st8\<lparr>insertPoint := Some a,
                               breakTargets := butlast (breakTargets st8),
                               continueTargets := butlast (continueTargets st8)\<rparr>))) = Inr st'"
    for s0 l a
    using that
    by (auto elim!: andThen_InrE
        dest!: variables_branchIfOpen WhileStatement.IH)
  show ?case using WhileStatement.prems
    apply (simp only: visitStatementCG.simps)
    apply (clarsimp split: option.splits prod.splits simp: Let_def)
    apply (erule andThen_InrE)
    apply (clarsimp split: option.splits prod.splits
        dest!: variables_generateExpression variables_createBlock')
    apply (drule chain)
    apply (auto dest!: variables_createBlock')
    done
next
  case (ReturnStatement val)
  then show ?case by (auto dest!: variables_visitReturnStatementCG)
next
  case (ExpressionStatement expression)
  then show ?case
    by (auto elim!: andThen_InrE dest!: variables_generateExpression)
qed


text \<open>A variable declaration binds its own name to the slot it allocates and changes
  no other entry; the lowering of a statement changes the entries of the names that
  the statement declares, and no other.\<close>

lemma variables_declaration:
  "visitVariableDeclarationCG vname vtype initializer st = Inr st' \<Longrightarrow>
   variables st' = (variables st)(vname \<mapsto> Slot (nextValue st))"
  by (auto simp: visitVariableDeclarationCG_def declareVariable_def Let_def createAlloca_def
      elim!: andThen_InrE split: option.splits if_splits
      dest!: variables_generateExpression)

lemma slots_frame_block:
  assumes "\<And>s st st'. s \<in> set ss \<Longrightarrow> visitStatementCG s st = Inr st' \<Longrightarrow>
             n \<notin> set (declaredNames s) \<Longrightarrow> variables st' n = variables st n"
  shows "generateBlock ss st = Inr st' \<Longrightarrow> n \<notin> set (declaredNamesOf ss) \<Longrightarrow>
         variables st' n = variables st n"
  using assms
proof (induction ss arbitrary: st)
  case Nil
  then show ?case by simp
next
  case (Cons s ss)
  from Cons.prems(1) obtain st1 where
    a: "visitStatementCG s st = Inr st1" and b: "generateBlock ss st1 = Inr st'"
    by (auto elim!: andThen_InrE)
  from Cons.prems(2) have n1: "n \<notin> set (declaredNames s)" and n2: "n \<notin> set (declaredNamesOf ss)"
    by simp_all
  have "variables st1 n = variables st n" using Cons.prems(3) [OF _ a n1] by simp
  moreover have "variables st' n = variables st1 n"
  proof (rule Cons.IH [OF b n2])
    fix s' st st'
    assume "s' \<in> set ss" "visitStatementCG s' st = Inr st'" "n \<notin> set (declaredNames s')"
    then show "variables st' n = variables st n"
      using Cons.prems(3) [of s' st st'] by simp
  qed
  ultimately show ?case by simp
qed

lemma slots_frame:
  "visitStatementCG s st = Inr st' \<Longrightarrow> n \<notin> set (declaredNames s) \<Longrightarrow>
   variables st' n = variables st n"
proof (induction s arbitrary: st st')
  case (BlockStatement statements)
  then show ?case using slots_frame_block [of statements n st st'] by simp
next
  case (VariableDeclaration vname vtype initializer)
  then show ?case by (auto dest!: variables_declaration)
next
  case (FunctionDeclaration fname rtype parameters body)
  from FunctionDeclaration.prems(1) obtain st1 st2 where
    p: "functionPrologue fname rtype parameters st = Inr st1"
    and b: "visitStatementCG body st1 = Inr st2"
    and e: "functionEpilogue rtype st2 = Inr st'"
    by (auto elim!: andThen_InrE)
  from FunctionDeclaration.prems(2) have n1: "n \<notin> fst ` set parameters"
    and n2: "n \<notin> set (declaredNames body)" by simp_all
  show ?case
    using variables_functionPrologue [OF p] FunctionDeclaration.IH [OF b n2]
      variables_functionEpilogue [OF e] n1
    by simp
next
  case (IfStatement condition thenBranch elseBranch)
  from IfStatement.prems(2) have n1: "n \<notin> set (declaredNames thenBranch)" by simp
  have ih_then: "variables s1 n = variables s0 n"
    if "visitStatementCG thenBranch s0 = Inr s1" for s0 s1
    using IfStatement.IH(1) [OF that n1] .
  have ih_else: "variables s1 n = variables s0 n"
    if "elseBranch = Some s" "visitStatementCG s s0 = Inr s1" for s s0 s1
    using IfStatement.IH(2) [of s s0 s1] that IfStatement.prems(2) by simp
  have chain: "variables st' n = variables s0 n"
    if "andThen (visitStatementCG thenBranch s0)
          (\<lambda>st6. andThen (branchIfOpen st6 m)
            (\<lambda>st7. andThen
                (case elseBranch of
                   None \<Rightarrow> Inr (st7\<lparr>insertPoint := Some e\<rparr>)
                 | Some s \<Rightarrow> visitStatementCG s (st7\<lparr>insertPoint := Some e\<rparr>))
                (\<lambda>st8. andThen (branchIfOpen st8 m)
                   (\<lambda>st9. Inr (st9\<lparr>insertPoint := Some m\<rparr>))))) = Inr st'"
    for s0 m e
    using that
    by (auto elim!: andThen_InrE split: option.splits
        dest!: variables_branchIfOpen ih_then ih_else [rotated])
  show ?case using IfStatement.prems(1)
    apply (simp only: visitStatementCG.simps)
    apply (erule andThen_InrE)
    apply (clarsimp split: option.splits prod.splits simp: Let_def
        dest!: variables_generateExpression)
    apply (drule chain)
    apply (auto dest!: variables_createBlock')
    done
next
  case (WhileStatement condition body)
  from WhileStatement.prems(2) have n1: "n \<notin> set (declaredNames body)" by simp
  have ih: "variables s1 n = variables s0 n"
    if "visitStatementCG body s0 = Inr s1" for s0 s1
    using WhileStatement.IH [OF that n1] .
  have chain: "variables st' n = variables s0 n"
    if "andThen (visitStatementCG body s0)
          (\<lambda>st7. andThen (branchIfOpen st7 l)
            (\<lambda>st8. Inr (st8\<lparr>insertPoint := Some a,
                               breakTargets := butlast (breakTargets st8),
                               continueTargets := butlast (continueTargets st8)\<rparr>))) = Inr st'"
    for s0 l a
    using that
    by (auto elim!: andThen_InrE dest!: variables_branchIfOpen ih)
  show ?case using WhileStatement.prems(1)
    apply (simp only: visitStatementCG.simps)
    apply (clarsimp split: option.splits prod.splits simp: Let_def)
    apply (erule andThen_InrE)
    apply (clarsimp split: option.splits prod.splits
        dest!: variables_generateExpression variables_createBlock')
    apply (drule chain)
    apply (auto dest!: variables_createBlock')
    done
next
  case (ReturnStatement val)
  then show ?case by (auto dest!: variables_visitReturnStatementCG)
next
  case (ExpressionStatement expression)
  then show ?case
    by (auto elim!: andThen_InrE dest!: variables_generateExpression)
qed

lemma slots_kept_list:
  "generateBlock ss st = Inr st' \<Longrightarrow> dom (variables st) \<subseteq> dom (variables st')"
  by (rule slots_kept_block [of ss st st']) (auto dest: slots_kept)

lemma slots_frame_list:
  "generateBlock ss st = Inr st' \<Longrightarrow> n \<notin> set (declaredNamesOf ss) \<Longrightarrow>
   variables st' n = variables st n"
  by (rule slots_frame_block [of ss n st st']) (auto dest: slots_frame)

text \<open>The parameters of a function declaration are bound to the slots allocated for
  them, a later parameter of the same name replacing an earlier one.\<close>

lemma nextValue_emit [simp]: "nextValue (emit st i) = nextValue st"
  by (simp add: emit_def split: option.split prod.split)

lemma parameterBindings_Cons:
  "parameterBindings n ((pname, ptype) # rest) = (pname, Slot n) # parameterBindings (Suc n) rest"
  by (simp add: parameterBindings_def upt_rec)

lemma parameterSlots_bindings:
  "parameterSlots f ps i st = Inr st' \<Longrightarrow>
   variables st' = variables st ++ map_of (rev (parameterBindings (nextValue st) ps))"
proof (induction f ps i st arbitrary: st' rule: parameterSlots.induct)
  case (1 f i st)
  then show ?case by (simp add: parameterBindings_def)
next
  case (2 f pname ptype rest i st)
  from "2.prems" obtain paramVar st1 where
    a: "createAlloca st (getLLVMType ptype) pname = Inr (paramVar, st1)"
    and r: "parameterSlots f rest (i + 1)
         (declareVariable (emit st1 (Store (Argument f i (getLLVMType ptype)) paramVar))
            pname paramVar) = Inr st'"
    by (auto elim!: andThen_InrE)
  let ?st2 = "declareVariable (emit st1 (Store (Argument f i (getLLVMType ptype)) paramVar))
            pname paramVar"
  from a have pv: "paramVar = Slot (nextValue st)" and nv: "nextValue st1 = Suc (nextValue st)"
    and vs: "variables st1 = variables st"
    by (auto simp: createAlloca_def split: option.splits)
  have v: "variables ?st2 = (variables st)(pname \<mapsto> Slot (nextValue st))"
    and n: "nextValue ?st2 = Suc (nextValue st)"
    using pv nv vs by (simp_all add: declareVariable_def)
  have "variables st' = variables ?st2 ++ map_of (rev (parameterBindings (nextValue ?st2) rest))"
    using "2.IH" a r by auto
  then have "variables st' x
      = (variables st ++ map_of (rev (parameterBindings (nextValue st) ((pname, ptype) # rest)))) x"
    for x
    by (simp add: v n parameterBindings_Cons map_add_def split: option.split)
  then show ?case by (rule ext)
qed

lemma functionPrologue_bindings:
  "functionPrologue fname rtype parameters st = Inr st' \<Longrightarrow>
   variables st' = variables st ++ map_of (rev (parameterBindings (nextValue st) parameters))"
  by (auto simp: functionPrologue_def Let_def elim!: andThen_InrE
      dest!: parameterSlots_bindings)

text \<open>Claim C4, as amended. The map from names to slots is one flat map for the whole
  module, which lowering never clears: a parameter or a variable declaration binds its
  own name to the slot allocated for it, in the place of an earlier entry for that
  name, and changes no other entry. So when the lowering of a function declaration
  begins, every name that the map binds at that moment is still bound inside the body
  of the new function: at the start of the body, and after any number \<open>lowered\<close> of
  the leading statements of the body have been lowered. It is bound to the same slot
  as before, unless a parameter of the new function has that name, or, after
  \<open>lowered\<close>, a variable or a parameter declared in \<open>lowered\<close>. At the start of the
  body a name of a parameter is bound to the slot of the last parameter of that
  name.\<close>

theorem slots_stay_resolvable:
  assumes "functionPrologue fname rtype parameters st = Inr st1"
    and "generateBlock lowered st1 = Inr st2"
    and "getVariable st vname = Some slot"
  shows "getVariable st1 vname \<noteq> None \<and> getVariable st2 vname \<noteq> None
     \<and> (vname \<notin> fst ` set parameters \<longrightarrow> getVariable st1 vname = Some slot)
     \<and> (vname \<notin> fst ` set parameters \<union> set (declaredNamesOf lowered) \<longrightarrow>
        getVariable st2 vname = Some slot)
     \<and> getVariable st1 vname
       = (case map_of (rev (parameterBindings (nextValue st) parameters)) vname of
            None \<Rightarrow> Some slot
          | Some parameterSlot \<Rightarrow> Some parameterSlot)
     \<and> (visitVariableDeclarationCG dname dtype initializer s = Inr s' \<longrightarrow>
        getVariable s' dname = Some (Slot (nextValue s)) \<and>
        (\<forall>other. other \<noteq> dname \<longrightarrow> getVariable s' other = getVariable s other))"
proof -
  note p = variables_functionPrologue [OF assms(1)]
  note k = slots_kept_list [OF assms(2)]
  have 1: "getVariable st1 vname \<noteq> None" using p assms(3) unfolding getVariable_def by blast
  then have 2: "getVariable st2 vname \<noteq> None" using k unfolding getVariable_def by blast
  have 3: "getVariable st1 vname = Some slot" if "vname \<notin> fst ` set parameters"
    using p that assms(3) unfolding getVariable_def by simp
  have 4: "getVariable st2 vname = Some slot"
    if "vname \<notin> fst ` set parameters \<union> set (declaredNamesOf lowered)"
    using slots_frame_list [OF assms(2), of vname] 3 that unfolding getVariable_def by simp
  have 5: "getVariable st1 vname
       = (case map_of (rev (parameterBindings (nextValue st) parameters)) vname of
            None \<Rightarrow> Some slot
          | Some parameterSlot \<Rightarrow> Some parameterSlot)"
    using functionPrologue_bindings [OF assms(1)] assms(3)
    by (simp add: getVariable_def map_add_def split: option.split)
  have 6: "getVariable s' dname = Some (Slot (nextValue s)) \<and>
        (\<forall>other. other \<noteq> dname \<longrightarrow> getVariable s' other = getVariable s other)"
    if "visitVariableDeclarationCG dname dtype initializer s = Inr s'"
    using variables_declaration [OF that] by (simp add: getVariable_def)
  from 1 2 3 4 5 6 show ?thesis by blast
qed

theorem slots_stay_resolvable_witness:
  "(let st = projr (generateBlock
                [FunctionDeclaration ''f'' VOID [(''p'', INT')]
                   (BlockStatement
                      [VariableDeclaration ''x'' INT' (Some (LiteralExpression ''1'' INT'))])]
                newCodeGenerator);
        st1 = projr (functionPrologue ''g'' VOID [(''p'', INT')] st);
        lowered = [VariableDeclaration ''y'' INT' None,
                   ExpressionStatement
                     (AssignmentExpression ''x'' (LiteralExpression ''2'' INT'))];
        st2 = projr (generateBlock lowered st1);
        declared = projr (visitVariableDeclarationCG ''y'' INT' None st1)
    in functionPrologue ''g'' VOID [(''p'', INT')] st = Inr st1
       \<and> generateBlock lowered st1 = Inr st2
       \<and> visitVariableDeclarationCG ''y'' INT' None st1 = Inr declared
       \<and> nextValue st1 = 3 \<and> getVariable declared ''y'' = Some (Slot 3)
       \<and> getVariable declared ''x'' = Some (Slot 1)
       \<and> getVariable st ''x'' = Some (Slot 1) \<and> getVariable st ''p'' = Some (Slot 0)
       \<and> getVariable st1 ''x'' = Some (Slot 1) \<and> getVariable st1 ''p'' = Some (Slot 2)
       \<and> getVariable st2 ''x'' = Some (Slot 1) \<and> getVariable st2 ''p'' = Some (Slot 2)
       \<and> getVariable st2 ''y'' = Some (Slot 3)
       \<and> ''x'' \<notin> fst ` set [(''p'', INT')] \<union> set (declaredNamesOf lowered))"
proof -
  let ?st = "projr (generateBlock
                [FunctionDeclaration ''f'' VOID [(''p'', INT')]
                   (BlockStatement
                      [VariableDeclaration ''x'' INT' (Some (LiteralExpression ''1'' INT'))])]
                newCodeGenerator)"
  let ?st1 = "projr (functionPrologue ''g'' VOID [(''p'', INT')] ?st)"
  let ?lowered = "[VariableDeclaration ''y'' INT' None,
                   ExpressionStatement
                     (AssignmentExpression ''x'' (LiteralExpression ''2'' INT'))]"
  let ?st2 = "projr (generateBlock ?lowered ?st1)"
  have "\<not> isl (functionPrologue ''g'' VOID [(''p'', INT')] ?st)" by code_simp
  then have p: "functionPrologue ''g'' VOID [(''p'', INT')] ?st = Inr ?st1" by simp
  have "\<not> isl (generateBlock ?lowered ?st1)" by code_simp
  then have b: "generateBlock ?lowered ?st1 = Inr ?st2" by simp
  let ?declared = "projr (visitVariableDeclarationCG ''y'' INT' None ?st1)"
  have "\<not> isl (visitVariableDeclarationCG ''y'' INT' None ?st1)" by code_simp
  then have d: "visitVariableDeclarationCG ''y'' INT' None ?st1 = Inr ?declared" by simp
  have v: "getVariable ?st ''x'' = Some (Slot 1)" by code_simp
  have n: "''x'' \<notin> fst ` set [(''p'', INT')] \<union> set (declaredNamesOf ?lowered)" by simp
  have o: "getVariable ?st ''p'' = Some (Slot 0)" "getVariable ?st1 ''p'' = Some (Slot 2)"
    "getVariable ?st2 ''p'' = Some (Slot 2)" "getVariable ?st2 ''y'' = Some (Slot 3)"
    "nextValue ?st1 = 3"
    by code_simp+
  show ?thesis
    unfolding Let_def
    using p b d v n o
      slots_stay_resolvable [OF p b v, where dname = "''y''" and dtype = "INT'"
        and initializer = None and s = ?st1 and s' = ?declared]
    by simp
qed


text \<open>Claim C4, as stated, fails. In the first program the assignment in the body of
  \<open>g\<close> is lowered to a store into slot 0, the slot allocated in the entry block of the
  enclosing function \<open>f\<close>. In the second, \<open>f\<close> has been lowered completely, and at the
  start of the body of the next function \<open>g\<close> the name \<open>x\<close> still resolves to the slot
  of \<open>f\<close>.\<close>

theorem flat_slot_map_counterexample:
  "compileFile ''function f() { var x = 1; function g() { x = 2; } }''
   = Compiled
      [\<lparr>functionName = ''printf'', returnTy = Int32Ty, paramTys = [Int8PtrTy],
        isVarArg = True, blocks = []\<rparr>,
       \<lparr>functionName = ''f'', returnTy = VoidTy, paramTys = [], isVarArg = False,
        blocks = [\<lparr>blockName = ''entry'',
                  instructions = [Alloca 0 Int32Ty ''x'',
                                  Store (ConstantInt Int32Ty 1) (Slot 0)]\<rparr>]\<rparr>,
       \<lparr>functionName = ''g'', returnTy = VoidTy, paramTys = [], isVarArg = False,
        blocks = [\<lparr>blockName = ''entry'',
                  instructions = [Store (ConstantInt Int32Ty 2) (Slot 0), RetVoid]\<rparr>]\<rparr>]
   \<and> andThen (generateBlock
               [FunctionDeclaration ''f'' VOID []
                  (BlockStatement
                     [VariableDeclaration ''x'' UNKNOWN (Some (LiteralExpression ''1'' INT'))])]
               newCodeGenerator)
         (\<lambda>st. andThen (functionPrologue ''g'' VOID [] st)
                 (\<lambda>st1. Inr (getVariable st1 ''x'')))
       = Inr (Some (Slot 0))"
  by code_simp

text \<open>Claim C3 at the source \<open>function f() { return; return; }\<close>, which the lexer, the
  parser and the analyzer accept. \<open>visitReturnStatement\<close> emits its \<open>ret\<close> without
  looking at the insertion block: the entry block of \<open>f\<close> holds two terminators, the
  first followed by another instruction.\<close>

theorem double_return_lowered:
  "compileFile ''function f() { return; return; }''
   = Compiled
      [\<lparr>functionName = ''printf'', returnTy = Int32Ty, paramTys = [Int8PtrTy],
        isVarArg = True, blocks = []\<rparr>,
       \<lparr>functionName = ''f'', returnTy = VoidTy, paramTys = [], isVarArg = False,
        blocks = [\<lparr>blockName = ''entry'', instructions = [RetVoid, RetVoid]\<rparr>]\<rparr>]
   \<and> \<not> wellTerminated \<lparr>blockName = ''entry'', instructions = [RetVoid, RetVoid]\<rparr>"
  by code_simp

section \<open>The pipeline on the first scenario of the specification\<close>

text \<open>With a COLON token in the place of the ERROR token, the parser and the analyzer
  do what the first scenario describes: no error, and \<open>x\<close> bound with type \<open>INT\<close>.\<close>

lemma colon_token_accepted:
  "parse [Token TK_VAR ''var'', Token TK_IDENTIFIER ''x'', Token TK_COLON '':'',
          Token TK_IDENTIFIER ''int'', Token TK_ASSIGN ''='', Token TK_INTEGER ''42'',
          Token TK_SEMICOLON '';'', Token TK_END_OF_FILE []]
     = Inr [VariableDeclaration ''x'' INT' (Some (LiteralExpression ''42'' INT'))]
   \<and> fst (analyze [VariableDeclaration ''x'' INT' (Some (LiteralExpression ''42'' INT'))])
   \<and> lookup (symbolTable
              (snd (analyze [VariableDeclaration ''x'' INT' (Some (LiteralExpression ''42'' INT'))])))
         ''x''
       = Some (mkSymbol ''x'' INT' False)"
  by code_simp

text \<open>Claim C1 at the source \<open>var x: int = 42;\<close>. \<open>readOperator\<close> has no case for the
  colon: the lexer produces an ERROR token, and \<open>compileFile\<close> reports the lexical
  error and stops before the parser runs.\<close>

theorem colon_not_lexed:
  "tokenize ''var x: int = 42;''
   = [Token TK_VAR ''var'', Token TK_IDENTIFIER ''x'',
      Token TK_ERROR ''Unexpected character: :'', Token TK_IDENTIFIER ''int'',
      Token TK_ASSIGN ''='', Token TK_INTEGER ''42'', Token TK_SEMICOLON '';'',
      Token TK_END_OF_FILE []]
   \<and> compileFile ''var x: int = 42;'' = LexicalError ''Unexpected character: :''"
  by code_simp


end
